theory Spec2Isabelle
  imports Main "HOL-Library.Word" "HOL-Library.Sublist" "HOL-Library.Log_Nat"
begin

section \<open>Go values used by the data partition\<close>

text \<open>
  A Go string is a sequence of bytes, here a \<open>string\<close> (list of 8-bit characters).
  \<open>uint64\<close>, \<open>int64\<close> and \<open>int\<close> (on the 64-bit targets of the data node) are
  \<open>64 word\<close>: unsigned comparisons are the order of the word type, signed ones go through
  \<open>sint\<close>.
\<close>

type_synonym uint64 = "64 word"
type_synonym int64 = "64 word"

datatype error =
    IllegalMetadata      \<comment> \<open>\<open>errors.New("illegal data partition metadata")\<close>\<close>
  | ErrSyntax            \<comment> \<open>\<open>strconv.ErrSyntax\<close>\<close>
  | ErrRange             \<comment> \<open>\<open>strconv.ErrRange\<close>\<close>
  | OSError string       \<comment> \<open>an error of a file-system call\<close>
  | JSONError string     \<comment> \<open>an error of \<open>encoding/json\<close>\<close>
  | MasterError string   \<comment> \<open>an error of the request to the master\<close>
  | StoreError string    \<comment> \<open>an error of the extent store\<close>

datatype panic =
    CloseOfClosedChannel \<comment> \<open>\<open>panic: close of closed channel\<close>\<close>
  | CloseOfNilChannel    \<comment> \<open>\<open>panic: close of nil channel\<close>\<close>
  | NilPointerDereference \<comment> \<open>\<open>invalid memory address or nil pointer dereference\<close>\<close>

subsection \<open>\<open>strings.TrimSpace\<close>\<close>

text \<open>
  \<open>strings.TrimSpace\<close> removes the leading and the trailing runes for which
  \<open>unicode.IsSpace\<close> holds. A rune is decoded from the front of the string, and from its
  end, as UTF-8; the runes that are spaces are the six ASCII ones, U+0085, U+00A0, U+1680,
  U+2000 to U+200A, U+2028, U+2029, U+202F, U+205F and U+3000. The string starts (ends)
  with such a rune exactly when it starts (ends) with the rune's UTF-8 encoding, so the
  model strips encodings from the byte sequence.
\<close>

definition spaceEncodings :: "string list" where
  "spaceEncodings =
     [[CHR 0x09], [CHR 0x0A], [CHR 0x0B], [CHR 0x0C], [CHR 0x0D], [CHR 0x20],
      [CHR 0xC2, CHR 0x85], [CHR 0xC2, CHR 0xA0],
      [CHR 0xE1, CHR 0x9A, CHR 0x80],
      [CHR 0xE2, CHR 0x80, CHR 0x80], [CHR 0xE2, CHR 0x80, CHR 0x81],
      [CHR 0xE2, CHR 0x80, CHR 0x82], [CHR 0xE2, CHR 0x80, CHR 0x83],
      [CHR 0xE2, CHR 0x80, CHR 0x84], [CHR 0xE2, CHR 0x80, CHR 0x85],
      [CHR 0xE2, CHR 0x80, CHR 0x86], [CHR 0xE2, CHR 0x80, CHR 0x87],
      [CHR 0xE2, CHR 0x80, CHR 0x88], [CHR 0xE2, CHR 0x80, CHR 0x89],
      [CHR 0xE2, CHR 0x80, CHR 0x8A],
      [CHR 0xE2, CHR 0x80, CHR 0xA8], [CHR 0xE2, CHR 0x80, CHR 0xA9],
      [CHR 0xE2, CHR 0x80, CHR 0xAF],
      [CHR 0xE2, CHR 0x81, CHR 0x9F],
      [CHR 0xE3, CHR 0x80, CHR 0x80]]"

text \<open>The first of the encodings \<open>es\<close> that the string starts with, if there is one.\<close>

definition leadingOf :: "string list \<Rightarrow> string \<Rightarrow> string option" where
  "leadingOf es s = find (\<lambda>e. e \<noteq> [] \<and> take (length e) s = e) es"

function stripLeading :: "string list \<Rightarrow> string \<Rightarrow> string" where
  "stripLeading es s =
     (case leadingOf es s of
        None \<Rightarrow> s
      | Some e \<Rightarrow> stripLeading es (drop (length e) s))"
  by pat_completeness auto

termination stripLeading
proof (relation "measure (\<lambda>(es, s). length s)")
  show "wf (measure (\<lambda>(es :: string list, s :: string). length s))" by simp
next
  fix es :: "string list" and s e :: string
  assume "leadingOf es s = Some e"
  then have ne: "e \<noteq> []" and tk: "take (length e) s = e"
    unfolding leadingOf_def by (auto simp: find_Some_iff)
  have "length (take (length e) s) \<le> length s" by simp
  with tk have "length e \<le> length s" by simp
  with ne have "length (drop (length e) s) < length s" by (cases e) auto
  then show "((es, drop (length e) s), (es, s)) \<in> measure (\<lambda>(es, s). length s)"
    by simp
qed

declare stripLeading.simps [simp del]

definition TrimLeft :: "string \<Rightarrow> string" where
  "TrimLeft s = stripLeading spaceEncodings s"

definition TrimRight :: "string \<Rightarrow> string" where
  "TrimRight s = rev (stripLeading (map rev spaceEncodings) (rev s))"

definition TrimSpace :: "string \<Rightarrow> string" where
  "TrimSpace s = TrimRight (TrimLeft s)"

subsection \<open>\<open>strconv.ParseUint\<close> and \<open>strings.Split\<close>\<close>

definition isDigit :: "char \<Rightarrow> bool" where
  "isDigit c \<longleftrightarrow>
     (of_char (CHR ''0'') :: nat) \<le> of_char c \<and> (of_char c :: nat) \<le> of_char (CHR ''9'')"

definition digitVal :: "char \<Rightarrow> nat" where
  "digitVal c = of_char c - of_char (CHR ''0'')"

definition maxUint64 :: nat where
  "maxUint64 = 2 ^ 64 - 1"

text \<open>
  The loop of \<open>strconv.ParseUint(s, 10, 64)\<close> over the bytes of \<open>s\<close>, with the value read
  so far in \<open>n\<close>: a byte that is not a decimal digit is a syntax error (value 0); a value
  that reaches the cutoff \<open>maxUint64 / 10 + 1\<close> before the multiplication, or passes
  \<open>maxUint64\<close> with the next digit, is a range error (value \<open>maxUint64\<close>).
\<close>

fun parseUintLoop :: "nat \<Rightarrow> string \<Rightarrow> nat \<times> error option" where
  "parseUintLoop n [] = (n, None)"
| "parseUintLoop n (c # cs) =
     (if \<not> isDigit c then (0, Some ErrSyntax)
      else if n \<ge> maxUint64 div 10 + 1 then (maxUint64, Some ErrRange)
      else if n * 10 + digitVal c > maxUint64 then (maxUint64, Some ErrRange)
      else parseUintLoop (n * 10 + digitVal c) cs)"

definition ParseUint :: "string \<Rightarrow> uint64 \<times> error option" where
  "ParseUint s =
     (if s = [] then (0, Some ErrSyntax)
      else case parseUintLoop 0 s of (n, err) \<Rightarrow> (word_of_nat n, err))"

text \<open>
  \<open>strings.Split(s, sep)\<close> for a separator of one byte: the pieces between the
  occurrences of the separator, one more than there are occurrences.
\<close>

fun Split :: "string \<Rightarrow> char \<Rightarrow> string list" where
  "Split [] sep = [[]]"
| "Split (c # cs) sep =
     (if c = sep then [] # Split cs sep
      else case Split cs sep of
             [] \<Rightarrow> [[c]]
           | w # ws \<Rightarrow> (c # w) # ws)"

subsection \<open>Numbers printed by \<open>fmt.Sprintf("%v", _)\<close>\<close>

fun decimal :: "nat \<Rightarrow> string" where
  "decimal n =
     (if n < 10 then [''0123456789'' ! n]
      else decimal (n div 10) @ [''0123456789'' ! (n mod 10)])"

declare decimal.simps [simp del]

definition decimalInt :: "int \<Rightarrow> string" where
  "decimalInt i = (if i < 0 then CHR ''-'' # decimal (nat (- i)) else decimal (nat i))"

subsection \<open>\<open>path.Clean\<close> and \<open>path.Join\<close>\<close>

text \<open>
  \<open>path.Clean\<close> goes through the elements of the path, which are the pieces between its
  slashes, and keeps the elements of the result on a stack, the last one on top: an empty
  element and \<open>.\<close> are dropped; \<open>..\<close> removes the element on top when there is one that
  is not \<open>..\<close> itself, is dropped at the root, and is kept otherwise; any other element is
  pushed.
\<close>

fun cleanElements :: "bool \<Rightarrow> string list \<Rightarrow> string list \<Rightarrow> string list" where
  "cleanElements rooted [] out = out"
| "cleanElements rooted (el # els) out =
     (if el = [] \<or> el = ''.'' then cleanElements rooted els out
      else if el = ''..'' then
        (case out of
           kept # below \<Rightarrow>
             if kept \<noteq> ''..'' then cleanElements rooted els below
             else if rooted then cleanElements rooted els out
             else cleanElements rooted els (''..'' # out)
         | [] \<Rightarrow>
             if rooted then cleanElements rooted els out
             else cleanElements rooted els (''..'' # out))
      else cleanElements rooted els (el # out))"

text \<open>The elements with a slash between them.\<close>

fun joinSlash :: "string list \<Rightarrow> string" where
  "joinSlash [] = []"
| "joinSlash [el] = el"
| "joinSlash (el # els) = el @ ''/'' @ joinSlash els"

definition Clean :: "string \<Rightarrow> string" where
  "Clean p =
     (if p = [] then ''.''
      else let rooted = (hd p = CHR ''/'');
               body = joinSlash (rev (cleanElements rooted (Split p (CHR ''/'')) []))
           in if rooted then CHR ''/'' # body
              else if body = [] then ''.'' else body)"

text \<open>
  \<open>path.Join(dir, name)\<close>: the elements from the first non-empty one on are joined with
  slashes and the result is cleaned; without a non-empty element the result is empty.
\<close>

definition pathJoin :: "string \<Rightarrow> string \<Rightarrow> string" where
  "pathJoin dir name =
     (if dir \<noteq> [] then Clean (dir @ ''/'' @ name)
      else if name \<noteq> [] then Clean name
      else [])"

text \<open>
  What the directory contributes to a path joined from it and the name of a file: the
  cleaned directory and the slash before the name.
\<close>

definition dirPrefix :: "string \<Rightarrow> string" where
  "dirPrefix dir =
     (if dir = [] then []
      else let rooted = (hd dir = CHR ''/'');
               out = cleanElements rooted (Split dir (CHR ''/'')) []
           in (if rooted then ''/'' else [])
              @ (if out = [] then [] else joinSlash (rev out) @ ''/''))"

section \<open>The partition descriptor\<close>

text \<open>\<open>proto.Peer\<close>: the id of a replica and its address.\<close>

record Peer =
  ID :: uint64
  Addr :: string

record DataPartitionMetadata =
  VolumeID :: string
  PartitionID :: uint64
  PartitionSize :: int64
  CreateTime :: string
  Peers :: "Peer list"

text \<open>
  \<open>Validate\<close> has a pointer receiver: it stores the trimmed volume id in the descriptor
  and returns the error, if any. The model returns both.
\<close>

definition Validate :: "DataPartitionMetadata \<Rightarrow> DataPartitionMetadata \<times> error option" where
  "Validate md =
     (let md1 = md\<lparr>VolumeID := TrimSpace (VolumeID md)\<rparr>
      in if length (VolumeID md1) = 0 \<or> PartitionID md1 = 0 \<or> PartitionSize md1 = 0
         then (md1, Some IllegalMetadata)
         else (md1, None))"

section \<open>Constants\<close>

definition DataPartitionPrefix :: string where
  "DataPartitionPrefix = ''datapartition''"

definition DataPartitionMetadataFileName :: string where
  "DataPartitionMetadataFileName = ''META''"

definition TempMetadataFileName :: string where
  "TempMetadataFileName = ''.meta''"

text \<open>
  Modelled from the spec: the constants of package \<open>proto\<close>, which is not among the
  sources. The spec orders them \<open>Unavailable < ReadOnly < ReadWrite\<close>; the values are the
  ones of the protocol package.
\<close>

definition Unavailable :: int64 where
  "Unavailable = - 1"

definition ReadOnly :: int64 where
  "ReadOnly = 1"

definition ReadWrite :: int64 where
  "ReadWrite = 2"

text \<open>
  Modelled from the spec: \<open>DiskSectorSize\<close>, declared in a file that is not among the
  sources; the spec gives the sector size as 512 bytes.
\<close>

definition DiskSectorSize :: int64 where
  "DiskSectorSize = 512"

text \<open>
  The other constants that the sources use without declaring them
  (\<open>MaxActiveExtents\<close>, \<open>IntervalToUpdatePartitionSize\<close>, \<open>IntervalToUpdateReplica\<close>,
  \<open>NumOfFilesToRecoverInParallel\<close>), the process-wide \<open>LocalIP\<close>, the regular expression
  \<open>storage.RegexpExtentFile\<close> and the predicate \<open>storage.IsTinyExtent\<close> are parameters
  of the functions that use them.
\<close>

section \<open>The data partition\<close>

text \<open>A channel that is only ever closed: nil, open, or closed.\<close>

datatype chan = NilChan | OpenChan | ClosedChan

text \<open>The built-in \<open>close\<close>: it panics on a nil channel and on a closed one.\<close>

definition closeChan :: "chan \<Rightarrow> panic + chan" where
  "closeChan c =
     (case c of
        NilChan \<Rightarrow> Inl CloseOfNilChannel
      | OpenChan \<Rightarrow> Inr ClosedChan
      | ClosedChan \<Rightarrow> Inl CloseOfClosedChannel)"

text \<open>The fields of \<open>Disk\<close> that the partition reads.\<close>

record Disk =
  Path :: string
  Status :: int64

record dataPartitionCfg =
  VolName :: string
  ClusterID :: string
  cfg_PartitionID :: uint64
  cfg_PartitionSize :: int64
  cfg_Peers :: "Peer list"
  NodeID :: uint64

text \<open>
  The partition, with the fields that the functions below read or write. The extent store
  (package \<open>storage\<close>) and the raft partition (package \<open>raftstore\<close>) are not among
  the sources: their states are the type parameters \<open>'st\<close> and \<open>'r\<close>, and their
  operations are parameters of the functions that call them.
\<close>

record ('st, 'r) DataPartition =
  clusterID :: string
  volumeID :: string
  partitionID :: uint64
  partitionStatus :: int64
  partitionSize :: int64
  replicas :: "string list"
  disk :: Disk
  isLeader :: bool
  path :: string
  used :: int64
  extentStore :: 'st
  raftPartition :: 'r
  config :: dataPartitionCfg
  stopC :: chan
  intervalToUpdateReplicas :: int64
  shouldRepairAllTinyExtents :: bool
  intervalToUpdatePartitionSize :: int64

subsection \<open>\<open>newDataPartition\<close>\<close>

text \<open>
  \<open>NewExtentStore\<close> is \<open>storage.NewExtentStore\<close>, and \<open>noRaft\<close> is the raft
  partition that is not there yet (nil). Attaching the partition to the disk and starting
  the status scheduler do not change the partition value and are left out.
\<close>

definition newDataPartition ::
  "(string \<Rightarrow> uint64 \<Rightarrow> int64 \<Rightarrow> error + 'st) \<Rightarrow> 'r \<Rightarrow> dataPartitionCfg \<Rightarrow> Disk
     \<Rightarrow> error + ('st, 'r) DataPartition" where
  "newDataPartition NewExtentStore noRaft dpCfg dsk =
     (let partitionID' = cfg_PartitionID dpCfg;
          dataPath = pathJoin (Path dsk)
            (DataPartitionPrefix @ ''_'' @ decimal (unat partitionID') @ ''_''
               @ decimalInt (sint (cfg_PartitionSize dpCfg)))
      in case NewExtentStore dataPath (cfg_PartitionID dpCfg) (cfg_PartitionSize dpCfg) of
           Inl e \<Rightarrow> Inl e
         | Inr store \<Rightarrow>
             Inr \<lparr>clusterID = ClusterID dpCfg,
                  volumeID = VolName dpCfg,
                  partitionID = partitionID',
                  partitionStatus = ReadWrite,
                  partitionSize = cfg_PartitionSize dpCfg,
                  replicas = [],
                  disk = dsk,
                  isLeader = False,
                  path = dataPath,
                  used = 0,
                  extentStore = store,
                  raftPartition = noRaft,
                  config = dpCfg,
                  stopC = OpenChan,
                  intervalToUpdateReplicas = 0,
                  shouldRepairAllTinyExtents = True,
                  intervalToUpdatePartitionSize = 0\<rparr>)"

subsection \<open>\<open>Stop\<close>\<close>

text \<open>
  Modelled from the spec: the partition's method \<open>stopRaft\<close>, which is defined in a
  file that is not among the sources. The spec has it stop the consensus partition;
  \<open>RaftStop\<close> is what stopping does to the raft partition.
\<close>

definition stopRaft :: "('r \<Rightarrow> 'r) \<Rightarrow> ('st, 'r) DataPartition \<Rightarrow> ('st, 'r) DataPartition" where
  "stopRaft RaftStop dp = dp\<lparr>raftPartition := RaftStop (raftPartition dp)\<rparr>"

text \<open>
  \<open>Stop\<close>, with \<open>Close\<close> for \<open>ExtentStore.Close\<close>. A panic of the built-in \<open>close\<close>
  ends \<open>Stop\<close> before the store and the raft partition are touched.
\<close>

definition Stop ::
  "('st \<Rightarrow> 'st) \<Rightarrow> ('r \<Rightarrow> 'r) \<Rightarrow> ('st, 'r) DataPartition \<Rightarrow> panic + ('st, 'r) DataPartition" where
  "Stop Close RaftStop dp =
     (case (if stopC dp \<noteq> NilChan then closeChan (stopC dp) else Inr (stopC dp)) of
        Inl p \<Rightarrow> Inl p
      | Inr c \<Rightarrow>
          Inr (stopRaft RaftStop (dp\<lparr>stopC := c, extentStore := Close (extentStore dp)\<rparr>)))"

section \<open>What the partition uses from outside the sources\<close>

text \<open>\<open>os.FileInfo\<close> (name and logical length) and the field of \<open>syscall.Stat_t\<close> that is read.\<close>

record FileInfo =
  fi_Name :: string
  fi_Size :: int64

record Stat_t =
  Blocks :: int64

text \<open>\<open>storage.ExtentInfo\<close>, with the fields that the repair reads or writes.\<close>

record ExtentInfo =
  FileID :: uint64
  Inode :: uint64
  Size :: uint64
  Source :: string

record DataPartitionRepairTask =
  ExtentsToBeCreated :: "ExtentInfo list"
  ExtentsToBeRepaired :: "ExtentInfo list"

text \<open>
  The constants, the process-wide variable and the functions of other packages that the
  sources use: the constants of the data node, \<open>storage.RegexpExtentFile.MatchString\<close>,
  \<open>storage.IsTinyExtent\<close>, the methods \<open>GetExtentCount\<close>, \<open>HasExtent\<close> and \<open>Create\<close>
  of the extent store (\<open>Create\<close> returns the store as it has left it, and its error),
  and \<open>json.Unmarshal(bufs, &response)\<close> for the pointer \<open>response\<close> to a
  \<open>master.DataPartition\<close>: its error, or else what \<open>response\<close> is afterwards, which is
  nil (\<open>None\<close>) when the body is the JSON value \<open>null\<close>, and otherwise a response of
  which the field \<open>Hosts\<close> is given.
\<close>

record 'st externals =
  MaxActiveExtents :: int64
  IntervalToUpdatePartitionSize :: int64
  IntervalToUpdateReplica :: int64
  LocalIP :: string
  RegexpExtentFile :: "string \<Rightarrow> bool"
  IsTinyExtent :: "uint64 \<Rightarrow> bool"
  GetExtentCount :: "'st \<Rightarrow> int64"
  HasExtent :: "'st \<Rightarrow> uint64 \<Rightarrow> bool"
  Create :: "'st \<Rightarrow> uint64 \<Rightarrow> uint64 \<Rightarrow> 'st \<times> error option"
  UnmarshalHosts :: "string \<Rightarrow> error + string list option"

section \<open>Persisting the descriptor\<close>

text \<open>\<open>sortedPeers.Less\<close>, on the peers rather than on their indices.\<close>

definition sortedPeers_Less :: "Peer \<Rightarrow> Peer \<Rightarrow> bool" where
  "sortedPeers_Less p q \<longleftrightarrow> ID p < ID q"

text \<open>
  \<open>sort.Sort(sp)\<close>. The algorithm of package \<open>sort\<close> is not among the sources and is not
  stable: it promises a permutation in which no element is less than one before it, and
  no order among peers of equal id. \<open>Sort\<close> stands for it, given the \<open>Less\<close> of the
  slice.
\<close>

definition sortPeers ::
  "((Peer \<Rightarrow> Peer \<Rightarrow> bool) \<Rightarrow> Peer list \<Rightarrow> Peer list) \<Rightarrow> Peer list \<Rightarrow> Peer list" where
  "sortPeers Sort ps = Sort sortedPeers_Less ps"

text \<open>The descriptor that \<open>PersistMetadata\<close> builds, at the clock reading \<open>now\<close>.\<close>

definition metadataOf :: "dataPartitionCfg \<Rightarrow> string \<Rightarrow> DataPartitionMetadata" where
  "metadataOf cfg now =
     \<lparr>VolumeID = VolName cfg,
      PartitionID = cfg_PartitionID cfg,
      PartitionSize = cfg_PartitionSize cfg,
      CreateTime = now,
      Peers = cfg_Peers cfg\<rparr>"

text \<open>
  The files of the node: a map from paths to contents. What the environment answers to one
  call of \<open>PersistMetadata\<close>: the error of \<open>os.OpenFile\<close>, if any; the text of
  \<open>time.Now().Format(TimeLayout)\<close>; the number of bytes written and the error when
  \<open>Write\<close> fails; the error of \<open>os.Rename\<close>, if any; and whether the deferred
  \<open>os.Remove\<close> of an existing file fails. The errors of \<open>Sync\<close>, \<open>Close\<close> and
  \<open>Remove\<close> are dropped by the source.
\<close>

type_synonym files = "string \<rightharpoonup> string"

record persist_io =
  open_error :: "error option"
  clock_text :: string
  write_error :: "(nat \<times> error) option"
  rename_error :: "error option"
  remove_fails :: bool

text \<open>
  \<open>os.OpenFile(name, O_CREATE|O_RDWR, 0666)\<close>: the file is created empty when it does
  not exist, and is left as it is when it does (the flags do not truncate).
\<close>

definition openCreate :: "files \<Rightarrow> string \<Rightarrow> files" where
  "openCreate fs name = (case fs name of None \<Rightarrow> fs(name \<mapsto> []) | Some _ \<Rightarrow> fs)"

text \<open>A write of \<open>data\<close> at offset 0 of a file whose contents are \<open>old\<close>.\<close>

definition writeAt0 :: "string \<Rightarrow> string \<Rightarrow> string" where
  "writeAt0 data old = data @ drop (length data) old"

definition writeFile :: "files \<Rightarrow> string \<Rightarrow> string \<Rightarrow> files" where
  "writeFile fs name data =
     (case fs name of None \<Rightarrow> fs | Some old \<Rightarrow> fs(name \<mapsto> writeAt0 data old))"

definition renameFile :: "files \<Rightarrow> string \<Rightarrow> string \<Rightarrow> files" where
  "renameFile fs src dst =
     (case fs src of None \<Rightarrow> fs | Some c \<Rightarrow> (fs(src := None))(dst \<mapsto> c))"

text \<open>The deferred function: the file is removed unless the removal fails.\<close>

definition removeDeferred :: "persist_io \<Rightarrow> files \<Rightarrow> string \<Rightarrow> files" where
  "removeDeferred io fs name = (if remove_fails io then fs else fs(name := None))"

text \<open>
  \<open>PersistMetadata\<close>, with \<open>Sort\<close> for \<open>sort.Sort\<close> and \<open>Marshal\<close> for
  \<open>json.Marshal\<close> of the descriptor. The result is
  the partition (whose configured peers have been sorted in place), the files, and the
  error. The deferred function is registered once the file is open, so it runs on every
  return after that.
\<close>

definition PersistMetadata ::
  "((Peer \<Rightarrow> Peer \<Rightarrow> bool) \<Rightarrow> Peer list \<Rightarrow> Peer list)
     \<Rightarrow> (DataPartitionMetadata \<Rightarrow> error + string) \<Rightarrow> persist_io \<Rightarrow> ('st, 'r) DataPartition \<Rightarrow> files
     \<Rightarrow> ('st, 'r) DataPartition \<times> files \<times> error option" where
  "PersistMetadata Sort Marshal io dp fs =
     (let fileName = pathJoin (path dp) TempMetadataFileName
      in case open_error io of
           Some e \<Rightarrow> (dp, fs, Some e)
         | None \<Rightarrow>
             (let fs1 = openCreate fs fileName;
                  dp1 = dp\<lparr>config :=
                          (config dp)\<lparr>cfg_Peers := sortPeers Sort (cfg_Peers (config dp))\<rparr>\<rparr>;
                  md = metadataOf (config dp1) (clock_text io)
              in case Marshal md of
                   Inl e \<Rightarrow> (dp1, removeDeferred io fs1 fileName, Some e)
                 | Inr metaData \<Rightarrow>
                     (case write_error io of
                        Some (n, e) \<Rightarrow>
                          (dp1, removeDeferred io (writeFile fs1 fileName (take n metaData)) fileName,
                           Some e)
                      | None \<Rightarrow>
                          (let fs2 = writeFile fs1 fileName metaData
                           in case rename_error io of
                                Some e \<Rightarrow> (dp1, removeDeferred io fs2 fileName, Some e)
                              | None \<Rightarrow>
                                  (dp1,
                                   removeDeferred io
                                     (renameFile fs2 fileName
                                        (pathJoin (path dp) DataPartitionMetadataFileName))
                                     fileName,
                                   None)))))"

text \<open>
  \<open>CreateDataPartition\<close>: the two schedules that it starts run beside it and are left
  out. The partition is returned also when persisting fails, as in the source.
\<close>

definition CreateDataPartition ::
  "(string \<Rightarrow> uint64 \<Rightarrow> int64 \<Rightarrow> error + 'st) \<Rightarrow> 'r
     \<Rightarrow> ((Peer \<Rightarrow> Peer \<Rightarrow> bool) \<Rightarrow> Peer list \<Rightarrow> Peer list)
     \<Rightarrow> (DataPartitionMetadata \<Rightarrow> error + string)
     \<Rightarrow> persist_io \<Rightarrow> dataPartitionCfg \<Rightarrow> Disk \<Rightarrow> files
     \<Rightarrow> ('st, 'r) DataPartition option \<times> files \<times> error option" where
  "CreateDataPartition NewExtentStore noRaft Sort Marshal io dpCfg dsk fs =
     (case newDataPartition NewExtentStore noRaft dpCfg dsk of
        Inl e \<Rightarrow> (None, fs, Some e)
      | Inr dp \<Rightarrow>
          (case PersistMetadata Sort Marshal io dp fs of
             (dp1, fs1, err) \<Rightarrow> (Some dp1, fs1, err)))"

section \<open>Capacity accounting\<close>

definition parseFileName :: "'st externals \<Rightarrow> string \<Rightarrow> uint64 \<times> bool" where
  "parseFileName X filename =
     (if \<not> RegexpExtentFile X filename then (0, False)
      else case ParseUint filename of
             (extentID, Some err) \<Rightarrow> (extentID, False)
           | (extentID, None) \<Rightarrow> (extentID, True))"

text \<open>
  \<open>actualSize\<close>, with \<open>stat\<close> for \<open>syscall.Stat\<close> on the files as they are during the
  call. The product is a product of \<open>int64\<close> values.
\<close>

definition actualSize ::
  "'st externals \<Rightarrow> (string \<Rightarrow> error + Stat_t) \<Rightarrow> string \<Rightarrow> FileInfo \<Rightarrow> int64" where
  "actualSize X stat dir finfo =
     (let name = fi_Name finfo
      in case parseFileName X name of
           (extentID, isExtent) \<Rightarrow>
             if \<not> isExtent then fi_Size finfo
             else if IsTinyExtent X extentID then
               (case stat (dir @ ''/'' @ fi_Name finfo) of
                  Inl err \<Rightarrow> fi_Size finfo
                | Inr st \<Rightarrow> Blocks st * DiskSectorSize)
             else fi_Size finfo)"

text \<open>
  What the environment answers to one call of \<open>computeUsage\<close>: the two readings of
  \<open>time.Now().Unix()\<close>, the result of \<open>ioutil.ReadDir\<close> and \<open>syscall.Stat\<close>.
\<close>

record usage_io =
  usage_now :: int64
  usage_readDir :: "error + FileInfo list"
  usage_stat :: "string \<Rightarrow> error + Stat_t"
  usage_done :: int64

definition computeUsage :: "'st externals \<Rightarrow> usage_io \<Rightarrow> ('st, 'r) DataPartition \<Rightarrow> ('st, 'r) DataPartition" where
  "computeUsage X io dp =
     (if sint (usage_now io - intervalToUpdatePartitionSize dp)
           < sint (IntervalToUpdatePartitionSize X) then dp
      else case usage_readDir io of
             Inl err \<Rightarrow> dp
           | Inr fileInfos \<Rightarrow>
               dp\<lparr>used := foldl (\<lambda>u file. u + actualSize X (usage_stat io) (path dp) file) 0 fileInfos,
                  intervalToUpdatePartitionSize := usage_done io\<rparr>)"

section \<open>The status\<close>

text \<open>
  The value of \<open>float64(x)\<close> for an integer \<open>x\<close>: \<open>x\<close> itself when its magnitude is below
  \<open>2 ^ 53\<close>, and otherwise \<open>x\<close> rounded to 53 significant bits, ties to even. The value is
  an integer again.
\<close>

definition float64 :: "int \<Rightarrow> int" where
  "float64 x =
     (let a = \<bar>x\<bar>
      in if a < 2 ^ 53 then x
         else let e = floorlog 2 (nat a) - 53;
                  q = a div 2 ^ e;
                  r = a mod 2 ^ e;
                  q1 = (if 2 * r > 2 ^ e \<or> (2 * r = 2 ^ e \<and> odd q) then q + 1 else q)
              in sgn x * (q1 * 2 ^ e))"

text \<open>
  \<open>statusUpdate\<close>. \<open>math.Min\<close> of two finite values is their minimum, and the conversion
  back to \<open>int\<close> of an integral value in the range of \<open>int\<close> is that value.
\<close>

definition statusUpdate :: "'st externals \<Rightarrow> usage_io \<Rightarrow> ('st, 'r) DataPartition \<Rightarrow> ('st, 'r) DataPartition" where
  "statusUpdate X io dp =
     (let status0 = ReadWrite;
          dp1 = computeUsage X io dp;
          status1 = (if sint (used dp1) \<ge> sint (partitionSize dp1) then ReadOnly else status0);
          status2 = (if sint (GetExtentCount X (extentStore dp1)) \<ge> sint (MaxActiveExtents X)
                     then ReadOnly else status1)
      in dp1\<lparr>partitionStatus :=
               word_of_int (min (float64 (sint status2)) (float64 (sint (Status (disk dp1)))))\<rparr>)"

section \<open>The replicas\<close>

text \<open>
  \<open>fetchReplicasFromMaster\<close>, given the result \<open>req\<close> of \<open>MasterHelper.Request\<close>. A nil
  slice and an empty one are both the empty list. When the decoding has left \<open>response\<close>
  nil, the read of \<open>response.Hosts\<close> panics.
\<close>

definition fetchReplicasFromMaster ::
  "'st externals \<Rightarrow> error + string \<Rightarrow> panic + bool \<times> string list \<times> error option" where
  "fetchReplicasFromMaster X req =
     (case req of
        Inl err \<Rightarrow> Inr (False, [], Some err)
      | Inr bufs \<Rightarrow>
          (case UnmarshalHosts X bufs of
             Inl err \<Rightarrow> Inr (False, [], Some err)
           | Inr None \<Rightarrow> Inl NilPointerDereference
           | Inr (Some hosts) \<Rightarrow>
               (let replicas1 = foldl (\<lambda>rs host. rs @ [host]) [] hosts;
                    isLeader1 =
                      (if hosts \<noteq> [] \<and> length hosts \<ge> 1 then
                         (let leaderAddr = Split (hosts ! 0) (CHR '':'')
                          in length leaderAddr = 2 \<and> TrimSpace (leaderAddr ! 0) = LocalIP X)
                       else False)
                in Inr (isLeader1, replicas1, None))))"

text \<open>
  What the environment answers to one call of \<open>updateReplicas\<close>: the two readings of
  \<open>time.Now().Unix()\<close> and the result of the request to the master. The comparison of
  the old and the new replicas only decides whether a line is logged.
\<close>

record replica_io =
  replica_now :: int64
  replica_request :: "error + string"
  replica_done :: int64

definition updateReplicas ::
  "'st externals \<Rightarrow> replica_io \<Rightarrow> ('st, 'r) DataPartition
     \<Rightarrow> panic + ('st, 'r) DataPartition \<times> error option" where
  "updateReplicas X io dp =
     (if sint (replica_now io - intervalToUpdateReplicas dp) \<le> sint (IntervalToUpdateReplica X)
      then Inr (dp, None)
      else let dp1 = dp\<lparr>isLeader := False\<rparr>
           in case fetchReplicasFromMaster X (replica_request io) of
                Inl p \<Rightarrow> Inl p
              | Inr (isLeader1, replicas1, Some err) \<Rightarrow> Inr (dp1, Some err)
              | Inr (isLeader1, replicas1, None) \<Rightarrow>
                  Inr (dp1\<lparr>isLeader := isLeader1, replicas := replicas1,
                           intervalToUpdateReplicas := replica_done io\<rparr>, None))"

section \<open>The repair of the extent store\<close>

text \<open>The descriptor that the repair appends for an entry: source, id and size.\<close>

definition repairInfo :: "ExtentInfo \<Rightarrow> ExtentInfo" where
  "repairInfo extentInfo =
     \<lparr>FileID = FileID extentInfo, Inode = 0, Size = Size extentInfo, Source = Source extentInfo\<rparr>"

text \<open>
  The first loop of \<open>DoExtentStoreRepair\<close>, over the entries of \<open>ExtentsToBeCreated\<close>
  that are left, with the store and the list \<open>ExtentsToBeRepaired\<close> as they are.
\<close>

fun createExtents ::
  "'st externals \<Rightarrow> ExtentInfo list \<Rightarrow> 'st \<Rightarrow> ExtentInfo list \<Rightarrow> 'st \<times> ExtentInfo list" where
  "createExtents X [] store toRepair = (store, toRepair)"
| "createExtents X (extentInfo # rest) store toRepair =
     (if IsTinyExtent X (FileID extentInfo) then createExtents X rest store toRepair
      else if HasExtent X store (FileID extentInfo) then
        createExtents X rest store (toRepair @ [repairInfo extentInfo])
      else case Create X store (FileID extentInfo) (Inode extentInfo) of
             (store1, Some err) \<Rightarrow> createExtents X rest store1 toRepair
           | (store1, None) \<Rightarrow> createExtents X rest store1 (toRepair @ [repairInfo extentInfo]))"

subsection \<open>The workers of the second loop\<close>

text \<open>
  The second loop of \<open>DoExtentStoreRepair\<close> starts one goroutine for each extent that
  the store has, counts the starts in \<open>recoverIndex\<close>, and waits for the wait group after
  every \<open>NumOfFilesToRecoverInParallel\<close> starts and once more after the loop. The
  goroutines run beside the loop, so the loop is a transition system: a state holds the
  entries not yet visited, \<open>recoverIndex\<close>, the counter of the wait group, the number of
  workers that were started and have not finished, and the place where the function is.
\<close>

datatype place = Dispatching | Barrier | FinalBarrier | Returned | Panicked

record repair_state =
  pending :: "ExtentInfo list"
  recoverIndex :: nat
  wgCounter :: nat
  inFlight :: nat
  place :: place

definition repairStart :: "ExtentInfo list \<Rightarrow> repair_state" where
  "repairStart toRepair =
     \<lparr>pending = toRepair, recoverIndex = 0, wgCounter = 0, inFlight = 0, place = Dispatching\<rparr>"

text \<open>
  The steps, for \<open>NumOfFilesToRecoverInParallel = n\<close>. The store changes while the
  workers run, so \<open>HasExtent\<close> may answer either way for an entry (\<open>skip\<close>,
  \<open>dispatch\<close>). The remainder of a division by zero is a run-time panic
  (\<open>dispatch_panic\<close>). \<open>wg.Wait()\<close> returns when the counter is zero (\<open>barrier_pass\<close>,
  \<open>final_pass\<close>).

  Modelled from the spec: \<open>doStreamExtentFixRepair\<close>, the worker, is defined in a file
  that is not among the sources. The spec has the loop wait for the outstanding workers to
  drain; the worker signals the wait group once, when it finishes (\<open>worker_done\<close>).
\<close>

inductive repairStep :: "nat \<Rightarrow> repair_state \<Rightarrow> repair_state \<Rightarrow> bool" for n :: nat where
  skip:
    "place s = Dispatching \<Longrightarrow> pending s = extentInfo # rest
     \<Longrightarrow> repairStep n s (s\<lparr>pending := rest\<rparr>)"
| dispatch:
    "place s = Dispatching \<Longrightarrow> pending s = extentInfo # rest \<Longrightarrow> n \<noteq> 0
     \<Longrightarrow> repairStep n s
          (s\<lparr>pending := rest,
             wgCounter := wgCounter s + 1,
             inFlight := inFlight s + 1,
             recoverIndex := recoverIndex s + 1,
             place := (if (recoverIndex s + 1) mod n = 0 then Barrier else Dispatching)\<rparr>)"
| dispatch_panic:
    "place s = Dispatching \<Longrightarrow> pending s = extentInfo # rest \<Longrightarrow> n = 0
     \<Longrightarrow> repairStep n s
          (s\<lparr>pending := rest,
             wgCounter := wgCounter s + 1,
             inFlight := inFlight s + 1,
             recoverIndex := recoverIndex s + 1,
             place := Panicked\<rparr>)"
| barrier_pass:
    "place s = Barrier \<Longrightarrow> wgCounter s = 0 \<Longrightarrow> repairStep n s (s\<lparr>place := Dispatching\<rparr>)"
| loop_end:
    "place s = Dispatching \<Longrightarrow> pending s = [] \<Longrightarrow> repairStep n s (s\<lparr>place := FinalBarrier\<rparr>)"
| final_pass:
    "place s = FinalBarrier \<Longrightarrow> wgCounter s = 0 \<Longrightarrow> repairStep n s (s\<lparr>place := Returned\<rparr>)"
| worker_done:
    "inFlight s > 0
     \<Longrightarrow> repairStep n s (s\<lparr>inFlight := inFlight s - 1, wgCounter := wgCounter s - 1\<rparr>)"

text \<open>The states that an execution on the list \<open>toRepair\<close> reaches.\<close>

definition repairReaches :: "nat \<Rightarrow> ExtentInfo list \<Rightarrow> repair_state \<Rightarrow> bool" where
  "repairReaches n toRepair s \<longleftrightarrow> (repairStep n)\<^sup>*\<^sup>* (repairStart toRepair) s"

section \<open>Notions of the specification\<close>

text \<open>
  The files that are billed by their blocks, in the words of the spec: the name matches the regular
  expression of extent files, parses as a 64-bit extent id, and the id is a tiny extent's.
\<close>

definition tinyExtentFile :: "'st externals \<Rightarrow> string \<Rightarrow> bool" where
  "tinyExtentFile X name \<longleftrightarrow>
     RegexpExtentFile X name \<and>
     (case ParseUint name of
        (extentID, None) \<Rightarrow> IsTinyExtent X extentID
      | (extentID, Some err) \<Rightarrow> False)"

text \<open>
  The host portion of an address, in the words of the spec: an address is \<open>host:port\<close>,
  and its host portion is the text before the port, which is the text before the first
  colon.
\<close>

definition hostPortion :: "string \<Rightarrow> string" where
  "hostPortion addr = takeWhile (\<lambda>c. c \<noteq> CHR '':'') addr"

text \<open>
  What holds of every state that the loop reaches when \<open>n\<close> is positive: the counter of
  the wait group is the number of workers in flight, which is bounded by the starts since
  the last barrier.
\<close>

definition repairInv :: "nat \<Rightarrow> repair_state \<Rightarrow> bool" where
  "repairInv n s \<longleftrightarrow>
     wgCounter s = inFlight s \<and>
     (case place s of
        Dispatching \<Rightarrow> inFlight s \<le> recoverIndex s mod n
      | Barrier \<Rightarrow> inFlight s \<le> n
      | FinalBarrier \<Rightarrow> inFlight s \<le> recoverIndex s mod n
      | Returned \<Rightarrow> inFlight s = 0
      | Panicked \<Rightarrow> False)"

section \<open>Example values\<close>

text \<open>
  A partition of volume \<open>v1\<close> with id 7 and three peers, on a disk mounted at
  \<open>/data0\<close>; an extent store that is the list of the ids of its extents, in which the
  ids 1 to 64 are the tiny extents and creating extent 4096 fails; a master that
  answers with the hosts separated by commas, or with \<open>null\<close>; and a sort by insertion.
\<close>

definition examplePeers :: "Peer list" where
  "examplePeers =
     [\<lparr>ID = 3, Addr = ''h3:9000''\<rparr>, \<lparr>ID = 1, Addr = ''h1:9000''\<rparr>, \<lparr>ID = 2, Addr = ''h2:9000''\<rparr>]"

definition exampleCfg :: dataPartitionCfg where
  "exampleCfg =
     \<lparr>VolName = ''v1'', ClusterID = ''c1'', cfg_PartitionID = 7,
      cfg_PartitionSize = 1073741824, cfg_Peers = examplePeers, NodeID = 1\<rparr>"

definition exampleDisk :: Disk where
  "exampleDisk = \<lparr>Path = ''/data0'', Status = ReadWrite\<rparr>"

definition examplePartition :: "(uint64 list, bool) DataPartition" where
  "examplePartition =
     \<lparr>clusterID = ''c1'', volumeID = ''v1'', partitionID = 7, partitionStatus = ReadWrite,
      partitionSize = 1073741824, replicas = [], disk = exampleDisk, isLeader = False,
      path = ''/data0/datapartition_7_1073741824'', used = 0, extentStore = [],
      raftPartition = False, config = exampleCfg, stopC = OpenChan,
      intervalToUpdateReplicas = 0, shouldRepairAllTinyExtents = True,
      intervalToUpdatePartitionSize = 0\<rparr>"

definition exampleX :: "uint64 list externals" where
  "exampleX =
     \<lparr>MaxActiveExtents = 20000,
      IntervalToUpdatePartitionSize = 60,
      IntervalToUpdateReplica = 600,
      LocalIP = ''self'',
      RegexpExtentFile = (\<lambda>name. name \<noteq> [] \<and> list_all isDigit name),
      IsTinyExtent = (\<lambda>extentID. 1 \<le> extentID \<and> extentID \<le> 64),
      GetExtentCount = (\<lambda>store. word_of_nat (length store)),
      HasExtent = (\<lambda>store extentID. extentID \<in> set store),
      Create = (\<lambda>store extentID inode.
                 if extentID = 4096 then (store, Some (StoreError ''no space''))
                 else (store @ [extentID], None)),
      UnmarshalHosts = (\<lambda>bufs. if bufs = ''null'' then Inr None
                                else Inr (Some (Split bufs (CHR '',''))))\<rparr>"

fun insertLess :: "('a \<Rightarrow> 'a \<Rightarrow> bool) \<Rightarrow> 'a \<Rightarrow> 'a list \<Rightarrow> 'a list" where
  "insertLess lt x [] = [x]"
| "insertLess lt x (y # ys) =
     (if lt x y then x # y # ys else y # insertLess lt x ys)"

definition exampleSort :: "('a \<Rightarrow> 'a \<Rightarrow> bool) \<Rightarrow> 'a list \<Rightarrow> 'a list" where
  "exampleSort lt xs = foldr (insertLess lt) xs []"

text \<open>A serialisation of the example's descriptors, whose strings need no escaping.\<close>

definition examplePeerText :: "Peer \<Rightarrow> string" where
  "examplePeerText p = ''{id:'' @ decimal (unat (ID p)) @ '',addr:'' @ Addr p @ ''}''"

definition exampleMarshal :: "DataPartitionMetadata \<Rightarrow> error + string" where
  "exampleMarshal md =
     Inr (''{VolumeID:'' @ VolumeID md
          @ '',PartitionID:'' @ decimal (unat (PartitionID md))
          @ '',PartitionSize:'' @ decimalInt (sint (PartitionSize md))
          @ '',CreateTime:'' @ CreateTime md
          @ '',Peers:['' @ concat (map examplePeerText (Peers md)) @ '']}'')"

text \<open>An environment in which every call of \<open>PersistMetadata\<close> succeeds.\<close>

definition exampleIO :: "string \<Rightarrow> persist_io" where
  "exampleIO now =
     \<lparr>open_error = None, clock_text = now, write_error = None, rename_error = None,
      remove_fails = False\<rparr>"

text \<open>
  The directory of the example: a file of 100 bytes that is no extent, a normal extent of
  10 MiB, and a tiny extent of 128 MiB of which 8192 blocks are allocated.
\<close>

definition exampleFiles :: "FileInfo list" where
  "exampleFiles =
     [\<lparr>fi_Name = ''APPLY'', fi_Size = 100\<rparr>,
      \<lparr>fi_Name = ''2048'', fi_Size = 10485760\<rparr>,
      \<lparr>fi_Name = ''3'', fi_Size = 134217728\<rparr>]"

definition exampleStat :: "string \<Rightarrow> error + Stat_t" where
  "exampleStat name =
     (if name = ''/data0/datapartition_7_1073741824/3'' then Inr \<lparr>Blocks = 8192\<rparr>
      else Inl (OSError ''no such file or directory''))"

definition exampleUsageIO :: "(string \<Rightarrow> error + Stat_t) \<Rightarrow> usage_io" where
  "exampleUsageIO stat =
     \<lparr>usage_now = 1541030400, usage_readDir = Inr exampleFiles, usage_stat = stat,
      usage_done = 1541030401\<rparr>"

text \<open>
  Entries of a repair task: a tiny extent, an extent that the store has, one that it lacks,
  and one whose creation fails.
\<close>

definition exampleTiny :: ExtentInfo where
  "exampleTiny = \<lparr>FileID = 3, Inode = 11, Size = 4096, Source = ''h2:9000''\<rparr>"

definition examplePresent :: ExtentInfo where
  "examplePresent = \<lparr>FileID = 2048, Inode = 12, Size = 8192, Source = ''h2:9000''\<rparr>"

definition exampleMissing :: ExtentInfo where
  "exampleMissing = \<lparr>FileID = 2049, Inode = 13, Size = 1024, Source = ''h3:9000''\<rparr>"

definition exampleFailing :: ExtentInfo where
  "exampleFailing = \<lparr>FileID = 4096, Inode = 14, Size = 512, Source = ''h3:9000''\<rparr>"

text \<open>
  A refresh of the replicas at a time when it is due, to which the master answers with
  the given text.
\<close>

definition exampleReplicaIO :: "string \<Rightarrow> replica_io" where
  "exampleReplicaIO answer =
     \<lparr>replica_now = 1541030400, replica_request = Inr answer, replica_done = 1541030401\<rparr>"

text \<open>
  A call of \<open>statusUpdate\<close> within the interval in which the usage is not recomputed.
\<close>

definition exampleQuietIO :: usage_io where
  "exampleQuietIO =
     \<lparr>usage_now = 30, usage_readDir = Inr [], usage_stat = (\<lambda>name. Inl (OSError ''gone'')),
      usage_done = 30\<rparr>"

text \<open>
  The descriptor file of the example partition and its temporary file; the text of the
  example's descriptor at a given time of the clock, up to the end of the third peer and
  in full; the partition as \<open>CreateDataPartition\<close> makes it on 2018-11-01 at 10:00:00 on
  a node without files; and the files of a node on which an earlier \<open>PersistMetadata\<close>,
  of a descriptor with a fourth peer, was cut short before its rename.
\<close>

definition exampleMetaPath :: string where
  "exampleMetaPath = ''/data0/datapartition_7_1073741824/META''"

definition exampleTempPath :: string where
  "exampleTempPath = ''/data0/datapartition_7_1073741824/.meta''"

definition exampleMetaHead :: "string \<Rightarrow> string" where
  "exampleMetaHead now =
     ''{VolumeID:v1,PartitionID:7,PartitionSize:1073741824,CreateTime:'' @ now
       @ '',Peers:[{id:1,addr:h1:9000}{id:2,addr:h2:9000}{id:3,addr:h3:9000}''"

definition exampleMetaText :: "string \<Rightarrow> string" where
  "exampleMetaText now = exampleMetaHead now @ '']}''"

definition exampleCreated ::
  "(uint64 list, bool) DataPartition option \<times> files \<times> error option" where
  "exampleCreated =
     CreateDataPartition (\<lambda>dir pid size. Inr []) False exampleSort exampleMarshal
       (exampleIO ''2018-11-01 10:00:00'') exampleCfg exampleDisk Map.empty"

definition exampleStaleFiles :: files where
  "exampleStaleFiles =
     [exampleTempPath \<mapsto> exampleMetaHead ''2018-10-31 09:00:00'' @ ''{id:4,addr:h4:9000}]}'']"

section \<open>Validation of the descriptor\<close>

lemma TrimSpace_blank: "TrimSpace '' '' = []"
  by code_simp

lemma TrimSpace_v1: "TrimSpace '' v1 '' = ''v1''"
  by code_simp

text \<open>
  Claim C7: \<open>Validate\<close> returns the error for a descriptor exactly when its volume id
  is empty after \<open>strings.TrimSpace\<close>, or its partition id is zero, or its partition
  size is zero, and returns no error for every other descriptor; the descriptor keeps the
  trimmed volume id.
\<close>

theorem Validate_rejects_iff:
  "(snd (Validate md) = Some IllegalMetadata \<longleftrightarrow>
      TrimSpace (VolumeID md) = [] \<or> PartitionID md = 0 \<or> PartitionSize md = 0) \<and>
   (snd (Validate md) = None \<longleftrightarrow>
      \<not> (TrimSpace (VolumeID md) = [] \<or> PartitionID md = 0 \<or> PartitionSize md = 0)) \<and>
   VolumeID (fst (Validate md)) = TrimSpace (VolumeID md)"
  by (simp add: Validate_def Let_def)

text \<open>
  The three ways of being rejected, and an accepted descriptor whose volume id is trimmed.
\<close>

theorem Validate_rejects_iff_witness:
  "snd (Validate \<lparr>VolumeID = '' '', PartitionID = 7, PartitionSize = 1073741824,
                   CreateTime = '''', Peers = []\<rparr>) = Some IllegalMetadata
   \<and> snd (Validate \<lparr>VolumeID = '' v1 '', PartitionID = 0, PartitionSize = 1073741824,
                   CreateTime = '''', Peers = []\<rparr>) = Some IllegalMetadata
   \<and> snd (Validate \<lparr>VolumeID = '' v1 '', PartitionID = 7, PartitionSize = 0,
                   CreateTime = '''', Peers = []\<rparr>) = Some IllegalMetadata
   \<and> Validate \<lparr>VolumeID = '' v1 '', PartitionID = 7, PartitionSize = 1073741824,
                CreateTime = '''', Peers = []\<rparr>
       = (\<lparr>VolumeID = ''v1'', PartitionID = 7, PartitionSize = 1073741824,
           CreateTime = '''', Peers = []\<rparr>, None)"
  using
    Validate_rejects_iff [of "\<lparr>VolumeID = '' '', PartitionID = 7, PartitionSize = 1073741824,
                   CreateTime = '''', Peers = []\<rparr>"]
    Validate_rejects_iff [of "\<lparr>VolumeID = '' v1 '', PartitionID = 0, PartitionSize = 1073741824,
                   CreateTime = '''', Peers = []\<rparr>"]
    Validate_rejects_iff [of "\<lparr>VolumeID = '' v1 '', PartitionID = 7, PartitionSize = 0,
                   CreateTime = '''', Peers = []\<rparr>"]
    Validate_rejects_iff [of "\<lparr>VolumeID = '' v1 '', PartitionID = 7, PartitionSize = 1073741824,
                   CreateTime = '''', Peers = []\<rparr>"]
  by (simp add: TrimSpace_blank TrimSpace_v1 Validate_def Let_def)

section \<open>Joined paths\<close>

lemma Split_not_Nil: "Split s sep \<noteq> []"
  by (induction s) (auto split: list.splits)

lemma Split_append_sep: "Split (a @ sep # b) sep = Split a sep @ Split b sep"
proof (induction a)
  case Nil
  show ?case by simp
next
  case (Cons x xs)
  obtain w ws where s: "Split xs sep = w # ws"
    using Split_not_Nil [of xs sep] by (cases "Split xs sep") auto
  with Cons show ?case by simp
qed

lemma Split_no_sep: "sep \<notin> set s \<Longrightarrow> Split s sep = [s]"
  by (induction s) auto

lemma cleanElements_append:
  "cleanElements rooted (xs @ ys) out = cleanElements rooted ys (cleanElements rooted xs out)"
  by (induction rooted xs out rule: cleanElements.induct) (auto split: list.splits)

lemma joinSlash_snoc:
  "joinSlash (xs @ [el]) = (if xs = [] then el else joinSlash xs @ ''/'' @ el)"
  by (induction xs rule: joinSlash.induct) auto

lemma pathJoin_name:
  assumes "CHR ''/'' \<notin> set name" and "name \<noteq> []" and "name \<noteq> ''.''" and "name \<noteq> ''..''"
  shows "pathJoin dir name = dirPrefix dir @ name"
proof (cases "dir = []")
  case True
  from assms(1,2) have "hd name \<noteq> CHR ''/''" by (cases name) auto
  with True assms show ?thesis
    by (simp add: pathJoin_def Clean_def dirPrefix_def Split_no_sep)
next
  case False
  then have hd: "hd (dir @ ''/'' @ name) = hd dir" by simp
  have sp: "Split (dir @ ''/'' @ name) (CHR ''/'') = Split dir (CHR ''/'') @ [name]"
    using Split_append_sep [of dir "CHR ''/''" name] assms(1) by (simp add: Split_no_sep)
  have ce: "cleanElements rooted (Split dir (CHR ''/'') @ [name]) []
              = name # cleanElements rooted (Split dir (CHR ''/'')) []" for rooted
    using assms by (simp add: cleanElements_append)
  show ?thesis
    using False assms(2)
    by (simp add: pathJoin_def Clean_def dirPrefix_def hd sp ce joinSlash_snoc Let_def
             del: append_assoc append.simps)
qed

lemma temp_not_meta:
  "pathJoin d TempMetadataFileName \<noteq> pathJoin d DataPartitionMetadataFileName"
proof -
  have "pathJoin d ''.meta'' = dirPrefix d @ ''.meta''" by (rule pathJoin_name) simp_all
  moreover have "pathJoin d ''META'' = dirPrefix d @ ''META''" by (rule pathJoin_name) simp_all
  ultimately show ?thesis
    by (simp add: TempMetadataFileName_def DataPartitionMetadataFileName_def)
qed

lemma dirPrefix_disk: "dirPrefix ''/data0'' = ''/data0/''"
  by (simp add: dirPrefix_def)

lemma dirPrefix_partition:
  "dirPrefix ''/data0/datapartition_7_1073741824'' = ''/data0/datapartition_7_1073741824/''"
  by (simp add: dirPrefix_def)

text \<open>A directory with a slash at its end, and paths that \<open>path.Clean\<close> shortens.\<close>

lemma pathJoin_unclean: "pathJoin ''/data0/'' ''datapartition_7_12'' = ''/data0/datapartition_7_12''"
  by (simp add: pathJoin_def Clean_def)

lemma Clean_examples:
  "Clean ''a//b/./c/..'' = ''a/b''" "Clean ''/../a'' = ''/a''" "Clean ''../../a/..'' = ''../..''"
  "Clean '''' = ''.''" "Clean ''/'' = ''/''" "Clean ''a/..'' = ''.''"
  by (simp_all add: Clean_def)

section \<open>Stopping a partition\<close>

lemma stopC_stopRaft: "stopC (stopRaft RaftStop dp) = stopC dp"
  by (simp add: stopRaft_def)

lemma Stop_open:
  "stopC dp = OpenChan \<Longrightarrow>
   Stop Close RaftStop dp =
     Inr (stopRaft RaftStop (dp\<lparr>stopC := ClosedChan, extentStore := Close (extentStore dp)\<rparr>))"
  by (simp add: Stop_def closeChan_def)

lemma Stop_closed: "stopC dp = ClosedChan \<Longrightarrow> Stop Close RaftStop dp = Inl CloseOfClosedChannel"
  by (simp add: Stop_def closeChan_def)

lemma Stop_second_call_panics:
  assumes "stopC dp = OpenChan"
  shows "\<exists>dp1. Stop Close RaftStop dp = Inr dp1 \<and> stopC dp1 = ClosedChan
           \<and> Stop Close RaftStop dp1 = Inl CloseOfClosedChannel"
proof -
  let ?dp1 = "stopRaft RaftStop (dp\<lparr>stopC := ClosedChan, extentStore := Close (extentStore dp)\<rparr>)"
  have 1: "Stop Close RaftStop dp = Inr ?dp1" using assms by (rule Stop_open)
  have 2: "stopC ?dp1 = ClosedChan" by (simp add: stopC_stopRaft)
  from 2 have 3: "Stop Close RaftStop ?dp1 = Inl CloseOfClosedChannel" by (rule Stop_closed)
  from 1 2 3 show ?thesis by blast
qed

lemma newDataPartition_example:
  "newDataPartition (\<lambda>dir pid size. Inr []) False exampleCfg exampleDisk = Inr examplePartition"
proof -
  have "pathJoin ''/data0'' ''datapartition_7_1073741824'' = ''/data0/datapartition_7_1073741824''"
    by (simp add: pathJoin_name dirPrefix_disk)
  then show ?thesis
    by (simp add: newDataPartition_def exampleCfg_def exampleDisk_def examplePartition_def
        DataPartitionPrefix_def decimalInt_def decimal.simps Let_def ReadWrite_def)
qed

text \<open>
  Claim C1 (\<open>Stop\<close> is idempotent and never fails) does not hold of the code. The
  guard of \<open>Stop\<close> tests the stop channel for nil only, and nothing sets it to nil:
  on the partition that \<open>newDataPartition\<close> builds, the first \<open>Stop\<close> closes the
  channel and the second one panics with a close of a closed channel.
\<close>

theorem Stop_twice_panics:
  "(case Stop (\<lambda>store. store) (\<lambda>raft. True) examplePartition of
      Inl p \<Rightarrow> False
    | Inr dp1 \<Rightarrow> stopC dp1 = ClosedChan
        \<and> Stop (\<lambda>store. store) (\<lambda>raft. True) dp1 = Inl CloseOfClosedChannel)"
proof -
  have "stopC examplePartition = OpenChan" by (simp add: examplePartition_def)
  from Stop_second_call_panics [OF this, of "\<lambda>store. store" "\<lambda>raft. True"]
  show ?thesis by auto
qed

section \<open>The status after \<open>statusUpdate\<close>\<close>

lemma float64_exact: "\<bar>x\<bar> < 2 ^ 53 \<Longrightarrow> float64 x = x"
  by (simp add: float64_def Let_def)

lemma float64_large: 
  assumes "2 ^ 53 \<le> x"
  shows "2 ^ 53 \<le> float64 x"
proof -
  define e where "e = floorlog 2 (nat x) - 53"
  define q where "q = x div 2 ^ e"
  define r where "r = x mod 2 ^ e"
  define q1 where "q1 = (if 2 * r > 2 ^ e \<or> (2 * r = 2 ^ e \<and> odd q) then q + 1 else q)"
  have "(0::int) < 2 ^ 53" by simp
  with assms have xpos: "0 < x" by linarith
  have abs: "\<bar>x\<bar> = x" using xpos by simp
  have f: "float64 x = q1 * 2 ^ e"
    using assms xpos unfolding float64_def Let_def abs e_def q_def r_def q1_def
    by (simp add: not_less)
  have natx: "(2::nat) ^ 53 \<le> nat x" using assms by (simp add: le_nat_iff)
  have fl: "54 \<le> floorlog 2 (nat x)"
    by (rule floorlog_geI) (use natx in simp_all)
  have e1: "1 \<le> e" using fl by (simp add: e_def)
  have k: "floorlog 2 (nat x) = e + 53" using fl by (simp add: e_def)
  have "(2::nat) ^ (floorlog 2 (nat x) - 1) \<le> nat x"
    using floorlog_bounds [of "nat x" 2] xpos by simp
  moreover have "floorlog 2 (nat x) - 1 = e + 52" by (simp add: k)
  ultimately have "(2::nat) ^ (e + 52) \<le> nat x" by simp
  then have lo: "(2::int) ^ (e + 52) \<le> x"
    using xpos by (metis le_nat_iff nat_le_iff of_nat_numeral of_nat_power nat_int order_less_imp_le)
  have "(2::int) ^ (e + 52) = 2 ^ 52 * 2 ^ e" by (simp add: power_add)
  with lo have "(2::int) ^ 52 * 2 ^ e \<le> x" by simp
  then have "(2::int) ^ 52 \<le> q" unfolding q_def
    by (metis div_mult_self_is_m zdiv_mono1 zero_less_numeral zero_less_power nonzero_mult_div_cancel_right power_not_zero zero_neq_numeral)
  moreover have "q \<le> q1" by (simp add: q1_def)
  ultimately have q1lo: "(2::int) ^ 52 \<le> q1" by simp
  have "(2::int) ^ 1 \<le> 2 ^ e" using e1 by (intro power_increasing) simp_all
  then have e2: "(2::int) \<le> 2 ^ e" by simp
  have "(2::int) ^ 52 * 2 \<le> q1 * 2 ^ e"
    using q1lo e2 by (intro mult_mono) simp_all
  then show ?thesis using f by simp
qed

lemma sint_consts: "sint Unavailable = - 1" "sint ReadOnly = 1" "sint ReadWrite = 2"
  by (simp_all add: Unavailable_def ReadOnly_def ReadWrite_def)

lemma computeUsage_frame:
  "disk (computeUsage X io dp) = disk dp"
  "partitionSize (computeUsage X io dp) = partitionSize dp"
  "extentStore (computeUsage X io dp) = extentStore dp"
  by (simp_all add: computeUsage_def split: sum.splits)

lemma min_float64:
  assumes s: "s = 1 \<or> s = 2" and d: "- (2 ^ 53) < d"
  shows "min (float64 s) (float64 d) = min s d"
proof (cases "d < 2 ^ 53")
  case True
  with d have "float64 d = d" by (intro float64_exact) simp
  moreover from s have "float64 s = s" by (auto intro: float64_exact)
  ultimately show ?thesis by simp
next
  case False
  then have "2 ^ 53 \<le> d" by simp
  then have "2 ^ 53 \<le> float64 d" by (rule float64_large)
  moreover from s have fs: "float64 s = s" by (auto intro: float64_exact)
  ultimately show ?thesis using s \<open>2 ^ 53 \<le> d\<close> by auto
qed

text \<open>
  Claim C3: after \<open>statusUpdate\<close> the status of the partition is the minimum of the
  local status and the status of the disk, in the order
  \<open>Unavailable < ReadOnly < ReadWrite\<close>; the local status is \<open>ReadOnly\<close> exactly when
  the recomputed usage has reached the partition size or the number of extents has reached
  \<open>MaxActiveExtents\<close>, and \<open>ReadWrite\<close> otherwise. The status of the disk is taken
  above \<open>- 2 ^ 53\<close>, where its conversion to \<open>float64\<close> cannot round it; the three
  status values are.
\<close>

theorem statusUpdate_min:
  assumes "- (2 ^ 53) < sint (Status (disk dp))"
  shows "sint (partitionStatus (statusUpdate X io dp)) =
           min (sint (if sint (used (computeUsage X io dp)) \<ge> sint (partitionSize dp)
                         \<or> sint (GetExtentCount X (extentStore dp)) \<ge> sint (MaxActiveExtents X)
                      then ReadOnly else ReadWrite))
               (sint (Status (disk dp)))
         \<and> sint Unavailable < sint ReadOnly \<and> sint ReadOnly < sint ReadWrite"
proof -
  let ?dp1 = "computeUsage X io dp"
  let ?local = "if sint (used ?dp1) \<ge> sint (partitionSize dp)
                   \<or> sint (GetExtentCount X (extentStore dp)) \<ge> sint (MaxActiveExtents X)
                then ReadOnly else ReadWrite"
  let ?d = "Status (disk dp)"
  have loc: "sint ?local = 1 \<or> sint ?local = 2" by (simp add: sint_consts)
  have st: "partitionStatus (statusUpdate X io dp) =
              word_of_int (min (float64 (sint ?local)) (float64 (sint ?d)))"
    by (simp add: statusUpdate_def Let_def computeUsage_frame)
  have "min (float64 (sint ?local)) (float64 (sint ?d)) = min (sint ?local) (sint ?d)"
    using loc assms by (rule min_float64)
  with st have "partitionStatus (statusUpdate X io dp) = word_of_int (min (sint ?local) (sint ?d))"
    by simp
  also have "\<dots> = (if sint ?local \<le> sint ?d then ?local else ?d)"
    by (simp add: min_def)
  finally have "sint (partitionStatus (statusUpdate X io dp)) = min (sint ?local) (sint ?d)"
    by (simp add: min_def)
  then show ?thesis by (simp add: sint_consts)
qed

lemma exampleX_interval: "IntervalToUpdatePartitionSize exampleX = 60"
  by (simp add: exampleX_def)

text \<open>
  A partition whose usage has reached its size on a writable disk is read-only, a partition
  on an unavailable disk is unavailable, and the fresh partition is writable.
\<close>

theorem statusUpdate_min_witness:
  "- (2 ^ 53) < sint (Status (disk (examplePartition\<lparr>used := 1073741824\<rparr>)))
   \<and> sint (partitionStatus (statusUpdate exampleX exampleQuietIO (examplePartition\<lparr>used := 1073741824\<rparr>)))
       = sint ReadOnly
   \<and> sint (partitionStatus (statusUpdate exampleX exampleQuietIO
        (examplePartition\<lparr>disk := \<lparr>Path = ''/data0'', Status = Unavailable\<rparr>\<rparr>)))
       = sint Unavailable
   \<and> sint (partitionStatus (statusUpdate exampleX exampleQuietIO examplePartition)) = sint ReadWrite"
proof -
  have u: "computeUsage exampleX exampleQuietIO dp = dp"
    if "intervalToUpdatePartitionSize dp = 0" for dp :: "(uint64 list, bool) DataPartition"
    using that by (simp add: computeUsage_def exampleQuietIO_def exampleX_interval)
  have d1: "- (2 ^ 53) < sint (Status (disk (examplePartition\<lparr>used := 1073741824\<rparr>)))"
    by (simp add: examplePartition_def exampleDisk_def sint_consts)
  have d2: "- (2 ^ 53) < sint (Status (disk
              (examplePartition\<lparr>disk := \<lparr>Path = ''/data0'', Status = Unavailable\<rparr>\<rparr>)))"
    by (simp add: sint_consts)
  have d3: "- (2 ^ 53) < sint (Status (disk examplePartition))"
    by (simp add: examplePartition_def exampleDisk_def sint_consts)
  have x: "MaxActiveExtents exampleX = 20000" "GetExtentCount exampleX [] = 0"
    by (simp_all add: exampleX_def)
  from statusUpdate_min [OF d1, of exampleX exampleQuietIO]
    statusUpdate_min [OF d2, of exampleX exampleQuietIO]
    statusUpdate_min [OF d3, of exampleX exampleQuietIO]
  show ?thesis
    by (simp add: u x examplePartition_def exampleDisk_def sint_consts)
qed

section \<open>The size billed for a file\<close>

lemma parse_APPLY: "parseFileName exampleX ''APPLY'' = (0, False)"
  by (simp add: parseFileName_def exampleX_def isDigit_def)

lemma parse_2048: "parseFileName exampleX ''2048'' = (2048, True)"
  by (simp add: parseFileName_def exampleX_def isDigit_def ParseUint_def digitVal_def maxUint64_def)

lemma parse_3: "parseFileName exampleX ''3'' = (3, True)"
  by (simp add: parseFileName_def exampleX_def isDigit_def ParseUint_def digitVal_def maxUint64_def)

lemma tiny_3: "tinyExtentFile exampleX ''3''"
  by (simp add: tinyExtentFile_def exampleX_def isDigit_def ParseUint_def digitVal_def maxUint64_def)

lemma not_tiny_2048: "\<not> tinyExtentFile exampleX ''2048''"
  by (simp add: tinyExtentFile_def exampleX_def isDigit_def ParseUint_def digitVal_def maxUint64_def)

lemma not_tiny_APPLY: "\<not> tinyExtentFile exampleX ''APPLY''"
  by (simp add: tinyExtentFile_def exampleX_def isDigit_def)

lemma actualSize_tinyExtentFile:
  "actualSize X stat dir finfo =
     (if tinyExtentFile X (fi_Name finfo) then
        (case stat (dir @ ''/'' @ fi_Name finfo) of
           Inl err \<Rightarrow> fi_Size finfo
         | Inr st \<Rightarrow> Blocks st * DiskSectorSize)
      else fi_Size finfo)"
  by (auto simp: actualSize_def tinyExtentFile_def parseFileName_def Let_def
           split: prod.splits option.splits sum.splits)

text \<open>
  Claim C5 as it is stated fails for a tiny extent whose \<open>stat\<close> call fails: the file
  \<open>3\<close> matches the regular expression, parses, and is a tiny extent, no block count is
  reported for it, and \<open>actualSize\<close> returns its logical length.
\<close>

theorem actualSize_counterexample:
  "tinyExtentFile exampleX ''3''
   \<and> (\<lambda>name. Inl (OSError ''no such file or directory'')) ''/data0/datapartition_7_1073741824/3''
        = (Inl (OSError ''no such file or directory'') :: error + Stat_t)
   \<and> actualSize exampleX (\<lambda>name. Inl (OSError ''no such file or directory''))
        ''/data0/datapartition_7_1073741824'' \<lparr>fi_Name = ''3'', fi_Size = 134217728\<rparr> = 134217728"
  by (simp add: actualSize_tinyExtentFile tiny_3)

text \<open>
  Claim C5, amended: for a file whose name matches the regular expression of extent files,
  parses as a 64-bit id, and is the id of a tiny extent, \<open>actualSize\<close> returns the block
  count reported by \<open>stat\<close> times 512 when \<open>stat\<close> succeeds (the product of
  \<open>int64\<close> values, which is the product of the integers for a block count below
  \<open>2 ^ 54\<close>) and the logical length when \<open>stat\<close> fails; for every other file it
  returns the logical length.
\<close>

theorem actualSize_by_kind:
  "(tinyExtentFile X (fi_Name finfo) \<and> stat (dir @ ''/'' @ fi_Name finfo) = Inr st
      \<longrightarrow> actualSize X stat dir finfo = Blocks st * 512
          \<and> (0 \<le> sint (Blocks st) \<and> sint (Blocks st) < 2 ^ 54
               \<longrightarrow> sint (actualSize X stat dir finfo) = sint (Blocks st) * 512))
   \<and> (tinyExtentFile X (fi_Name finfo) \<and> stat (dir @ ''/'' @ fi_Name finfo) = Inl err
      \<longrightarrow> actualSize X stat dir finfo = fi_Size finfo)
   \<and> (\<not> tinyExtentFile X (fi_Name finfo) \<longrightarrow> actualSize X stat dir finfo = fi_Size finfo)"
proof -
  have "sint (b * 512) = sint b * 512" if "0 \<le> sint b" "sint b < 2 ^ 54" for b :: int64
  proof -
    have "sint (b * 512) = signed_take_bit 63 (sint b * sint (512 :: int64))"
      by (simp add: sint_word_ariths)
    also have "sint (512 :: int64) = 512" by simp
    also have "signed_take_bit 63 (sint b * 512) = sint b * 512"
      using that by (intro signed_take_bit_int_eq_self) auto
    finally show ?thesis .
  qed
  then show ?thesis
    by (simp add: actualSize_tinyExtentFile DiskSectorSize_def)
qed

text \<open>
  The three files of a partition directory (a tiny extent of 8192 blocks, a normal extent,
  a file that is no extent), and the tiny extent when \<open>stat\<close> fails.
\<close>

theorem actualSize_by_kind_witness:
  "actualSize exampleX exampleStat ''/data0/datapartition_7_1073741824''
      \<lparr>fi_Name = ''3'', fi_Size = 134217728\<rparr> = 4194304
   \<and> actualSize exampleX exampleStat ''/data0/datapartition_7_1073741824''
      \<lparr>fi_Name = ''2048'', fi_Size = 10485760\<rparr> = 10485760
   \<and> actualSize exampleX exampleStat ''/data0/datapartition_7_1073741824''
      \<lparr>fi_Name = ''APPLY'', fi_Size = 100\<rparr> = 100
   \<and> actualSize exampleX (\<lambda>name. Inl (OSError ''gone'')) ''/data0/datapartition_7_1073741824''
      \<lparr>fi_Name = ''3'', fi_Size = 134217728\<rparr> = 134217728"
  using
    actualSize_by_kind [of exampleX "\<lparr>fi_Name = ''3'', fi_Size = 134217728\<rparr>" exampleStat
      "''/data0/datapartition_7_1073741824''" "\<lparr>Blocks = 8192\<rparr>" "OSError ''gone''"]
    actualSize_by_kind [of exampleX "\<lparr>fi_Name = ''2048'', fi_Size = 10485760\<rparr>" exampleStat
      "''/data0/datapartition_7_1073741824''" "\<lparr>Blocks = 8192\<rparr>" "OSError ''gone''"]
    actualSize_by_kind [of exampleX "\<lparr>fi_Name = ''APPLY'', fi_Size = 100\<rparr>" exampleStat
      "''/data0/datapartition_7_1073741824''" "\<lparr>Blocks = 8192\<rparr>" "OSError ''gone''"]
    actualSize_by_kind [of exampleX "\<lparr>fi_Name = ''3'', fi_Size = 134217728\<rparr>"
      "\<lambda>name. Inl (OSError ''gone'')"
      "''/data0/datapartition_7_1073741824''" "\<lparr>Blocks = 8192\<rparr>" "OSError ''gone''"]
  by (simp add: tiny_3 not_tiny_2048 not_tiny_APPLY exampleStat_def)

lemma foldl_actualSize_fallback:
  assumes "\<forall>f \<in> set fileInfos. \<exists>err. stat (dir @ ''/'' @ fi_Name f) = Inl err"
  shows "foldl (\<lambda>u file. u + actualSize X stat dir file) acc fileInfos
           = acc + sum_list (map fi_Size fileInfos)"
  using assms
proof (induction fileInfos arbitrary: acc)
  case Nil
  then show ?case by simp
next
  case (Cons f fs)
  from Cons.prems obtain err where "stat (dir @ ''/'' @ fi_Name f) = Inl err" by auto
  then have "actualSize X stat dir f = fi_Size f"
    by (simp add: actualSize_tinyExtentFile)
  with Cons show ?case by (simp add: add.assoc)
qed

text \<open>
  Claim C10: \<open>actualSize\<close> returns a size for every file and has no error result; when
  the \<open>stat\<close> call on a file fails it returns the logical length of the file, so
  \<open>computeUsage\<close> on a directory whose \<open>stat\<close> calls all fail bills the sum of the
  logical lengths.
\<close>

theorem actualSize_stat_error_fallback:
  "(stat (dir @ ''/'' @ fi_Name finfo) = Inl err \<longrightarrow> actualSize X stat dir finfo = fi_Size finfo)
   \<and> (\<not> sint (usage_now io - intervalToUpdatePartitionSize dp) < sint (IntervalToUpdatePartitionSize X)
        \<and> usage_readDir io = Inr fileInfos
        \<and> (\<forall>f \<in> set fileInfos. \<exists>e. usage_stat io (path dp @ ''/'' @ fi_Name f) = Inl e)
      \<longrightarrow> used (computeUsage X io dp) = sum_list (map fi_Size fileInfos))"
proof (intro conjI impI)
  assume "stat (dir @ ''/'' @ fi_Name finfo) = Inl err"
  then show "actualSize X stat dir finfo = fi_Size finfo"
    by (simp add: actualSize_tinyExtentFile)
next
  assume a: "\<not> sint (usage_now io - intervalToUpdatePartitionSize dp)
                 < sint (IntervalToUpdatePartitionSize X)
        \<and> usage_readDir io = Inr fileInfos
        \<and> (\<forall>f \<in> set fileInfos. \<exists>e. usage_stat io (path dp @ ''/'' @ fi_Name f) = Inl e)"
  then have "foldl (\<lambda>u file. u + actualSize X (usage_stat io) (path dp) file) 0 fileInfos
               = 0 + sum_list (map fi_Size fileInfos)"
    by (intro foldl_actualSize_fallback) simp
  with a show "used (computeUsage X io dp) = sum_list (map fi_Size fileInfos)"
    by (simp add: computeUsage_def)
qed

text \<open>The tiny extent \<open>3\<close> and the example directory, with every \<open>stat\<close> failing.\<close>

theorem actualSize_stat_error_fallback_witness:
  "actualSize exampleX (\<lambda>name. Inl (OSError ''gone'')) ''/data0/datapartition_7_1073741824''
      \<lparr>fi_Name = ''3'', fi_Size = 134217728\<rparr> = 134217728
   \<and> used (computeUsage exampleX (exampleUsageIO (\<lambda>name. Inl (OSError ''gone''))) examplePartition)
       = 100 + 10485760 + 134217728"
  using actualSize_stat_error_fallback [of "\<lambda>name. Inl (OSError ''gone'')"
      "''/data0/datapartition_7_1073741824''" "\<lparr>fi_Name = ''3'', fi_Size = 134217728\<rparr>" "OSError ''gone''"
      exampleX "exampleUsageIO (\<lambda>name. Inl (OSError ''gone''))" examplePartition exampleFiles]
  by (simp add: exampleUsageIO_def examplePartition_def exampleX_interval exampleFiles_def)

lemma computeUsage_example:
  "used (computeUsage exampleX (exampleUsageIO exampleStat) examplePartition)
     = 100 + 10 * 1024 * 1024 + 8192 * 512"
  by (simp add: computeUsage_def exampleUsageIO_def examplePartition_def exampleFiles_def
      actualSize_tinyExtentFile tiny_3 not_tiny_2048 not_tiny_APPLY exampleStat_def
      DiskSectorSize_def exampleX_interval)

section \<open>The entries of \<open>ExtentsToBeCreated\<close>\<close>

lemma createExtents_append:
  "createExtents X (xs @ ys) store toRepair =
     (case createExtents X xs store toRepair of
        (store1, toRepair1) \<Rightarrow> createExtents X ys store1 toRepair1)"
  by (induction xs arbitrary: store toRepair) (auto split: prod.splits option.splits)

text \<open>
  Claim C4: the first loop of \<open>DoExtentStoreRepair\<close> leaves the store and the list
  \<open>ExtentsToBeRepaired\<close> as they are when there is no entry, and treats an entry \<open>e\<close> of
  \<open>ExtentsToBeCreated\<close>, met with the store \<open>store1\<close> and the list \<open>toRepair1\<close> that
  the entries before it have left, as follows: a tiny extent is skipped, store and list
  stay; for an extent that the store has, the store stays and a descriptor with the
  source, the id and the size of the entry is appended to the list; an extent that the
  store lacks is created with the id and the inode of the entry, and when the creation
  succeeds the same descriptor is appended; when the creation fails the error is dropped,
  nothing is appended, and the store is as the creation has left it. In every case the
  loop goes on with the entries after \<open>e\<close>, from the store and the list that \<open>e\<close> has
  left.
\<close>

theorem createExtents_entry:
  assumes "createExtents X before store toRepair = (store1, toRepair1)"
  shows "createExtents X [] store toRepair = (store, toRepair)
       \<and> (IsTinyExtent X (FileID e) \<longrightarrow>
            createExtents X (before @ [e]) store toRepair = (store1, toRepair1))
       \<and> (\<not> IsTinyExtent X (FileID e) \<and> HasExtent X store1 (FileID e) \<longrightarrow>
            createExtents X (before @ [e]) store toRepair
              = (store1,
                 toRepair1 @ [\<lparr>FileID = FileID e, Inode = 0, Size = Size e, Source = Source e\<rparr>]))
       \<and> (\<not> IsTinyExtent X (FileID e) \<and> \<not> HasExtent X store1 (FileID e)
            \<and> Create X store1 (FileID e) (Inode e) = (store2, None) \<longrightarrow>
            createExtents X (before @ [e]) store toRepair
              = (store2,
                 toRepair1 @ [\<lparr>FileID = FileID e, Inode = 0, Size = Size e, Source = Source e\<rparr>]))
       \<and> (\<not> IsTinyExtent X (FileID e) \<and> \<not> HasExtent X store1 (FileID e)
            \<and> Create X store1 (FileID e) (Inode e) = (store2, Some err) \<longrightarrow>
            createExtents X (before @ [e]) store toRepair = (store2, toRepair1))
       \<and> createExtents X (before @ e # rest) store toRepair
            = createExtents X rest (fst (createExtents X (before @ [e]) store toRepair))
                (snd (createExtents X (before @ [e]) store toRepair))"
proof -
  have "createExtents X (before @ e # rest) store toRepair
          = (case createExtents X (before @ [e]) store toRepair of
               (s, r) \<Rightarrow> createExtents X rest s r)"
    using createExtents_append [of X "before @ [e]" rest store toRepair] by simp
  then have "createExtents X (before @ e # rest) store toRepair
            = createExtents X rest (fst (createExtents X (before @ [e]) store toRepair))
                (snd (createExtents X (before @ [e]) store toRepair))"
    by (simp add: case_prod_beta)
  with assms show ?thesis
    by (simp add: createExtents_append repairInfo_def)
qed

lemma exampleX_store:
  "IsTinyExtent exampleX i \<longleftrightarrow> 1 \<le> i \<and> i \<le> 64"
  "HasExtent exampleX store i \<longleftrightarrow> i \<in> set store"
  "Create exampleX store i ino =
     (if i = 4096 then (store, Some (StoreError ''no space'')) else (store @ [i], None))"
  by (simp_all add: exampleX_def)

text \<open>
  A task whose list to repair has one entry and whose entries to create are a tiny extent,
  an extent that the store has, one that it lacks and one whose creation fails: the list
  to repair keeps its entry and gains the descriptors of the second and the third, the
  third has been created, and the loop has gone through the failure.
\<close>

theorem createExtents_entry_witness:
  "createExtents exampleX [exampleTiny, examplePresent, exampleMissing, exampleFailing] [2048]
       [\<lparr>FileID = 2047, Inode = 9, Size = 100, Source = ''h2:9000''\<rparr>]
     = ([2048, 2049],
        [\<lparr>FileID = 2047, Inode = 9, Size = 100, Source = ''h2:9000''\<rparr>,
         \<lparr>FileID = 2048, Inode = 0, Size = 8192, Source = ''h2:9000''\<rparr>,
         \<lparr>FileID = 2049, Inode = 0, Size = 1024, Source = ''h3:9000''\<rparr>])"
proof -
  let ?old = "\<lparr>FileID = 2047, Inode = 9, Size = 100, Source = ''h2:9000''\<rparr>"
  let ?p = "\<lparr>FileID = 2048, Inode = 0, Size = 8192, Source = ''h2:9000''\<rparr>"
  let ?m = "\<lparr>FileID = 2049, Inode = 0, Size = 1024, Source = ''h3:9000''\<rparr>"
  have t: "FileID exampleTiny = 3" "FileID examplePresent = 2048" "FileID exampleMissing = 2049"
    "FileID exampleFailing = 4096"
    "Size examplePresent = 8192" "Source examplePresent = ''h2:9000''"
    "Size exampleMissing = 1024" "Source exampleMissing = ''h3:9000''"
    by (simp_all add: exampleTiny_def examplePresent_def exampleMissing_def exampleFailing_def)
  have a: "createExtents exampleX [] [2048] [?old] = ([2048], [?old])"
    by (rule createExtents.simps(1))
  from createExtents_entry [OF a, of exampleTiny]
  have b: "createExtents exampleX [exampleTiny] [2048] [?old] = ([2048], [?old])"
    by (simp add: exampleX_store t)
  from createExtents_entry [OF b, of examplePresent]
  have c: "createExtents exampleX [exampleTiny, examplePresent] [2048] [?old]
             = ([2048], [?old, ?p])"
    by (simp add: exampleX_store t)
  from createExtents_entry [OF c, of exampleMissing "[2048, 2049]"]
  have d: "createExtents exampleX [exampleTiny, examplePresent, exampleMissing] [2048] [?old]
             = ([2048, 2049], [?old, ?p, ?m])"
    by (simp add: exampleX_store t)
  from createExtents_entry [OF d, of exampleFailing "[2048, 2049]" "StoreError ''no space''"]
  have e: "createExtents exampleX [exampleTiny, examplePresent, exampleMissing, exampleFailing]
             [2048] [?old] = ([2048, 2049], [?old, ?p, ?m])"
    by (simp add: exampleX_store t)
  then show ?thesis .
qed

section \<open>Leadership after a refresh of the replicas\<close>

lemma length_Split: "length (Split s sep) = Suc (count_list s sep)"
  by (induction s) (auto split: list.splits simp: Split_not_Nil)

lemma hd_Split: "Split s sep ! 0 = takeWhile (\<lambda>c. c \<noteq> sep) s"
  by (induction s) (auto split: list.splits simp: Split_not_Nil)

lemma foldl_snoc: "foldl (\<lambda>rs host. rs @ [host]) acc hosts = acc @ hosts"
  by (induction hosts arbitrary: acc) auto

lemma count_list_one:
  "count_list s c = 1 \<longleftrightarrow> (\<exists>a b. s = a @ c # b \<and> c \<notin> set a \<and> c \<notin> set b)"
proof
  assume one: "count_list s c = 1"
  then have "c \<in> set s" by (metis count_list_0_iff zero_neq_one)
  then obtain a b where s: "s = a @ c # b" and a: "c \<notin> set a"
    by (meson split_list_first)
  from a have "count_list a c = 0" by (simp add: count_list_0_iff)
  with one s have "count_list b c = 0" by simp
  then have "c \<notin> set b" by (simp add: count_list_0_iff)
  with s a show "\<exists>a b. s = a @ c # b \<and> c \<notin> set a \<and> c \<notin> set b" by blast
next
  assume "\<exists>a b. s = a @ c # b \<and> c \<notin> set a \<and> c \<notin> set b"
  then obtain a b where s: "s = a @ c # b" and a: "c \<notin> set a" and b: "c \<notin> set b" by blast
  from a b have "count_list a c = 0" "count_list b c = 0" by (simp_all add: count_list_0_iff)
  with s show "count_list s c = 1" by simp
qed

lemma takeWhile_before: "c \<notin> set a \<Longrightarrow> takeWhile (\<lambda>x. x \<noteq> c) (a @ c # b) = a"
  by (induction a) auto

lemma leader_test:
  "(length (Split addr (CHR '':'')) = 2 \<and> TrimSpace (Split addr (CHR '':'') ! 0) = ip)
     \<longleftrightarrow> (\<exists>host port. addr = host @ '':'' @ port \<and> CHR '':'' \<notin> set host
                        \<and> CHR '':'' \<notin> set port \<and> TrimSpace host = ip)"
proof
  assume l: "length (Split addr (CHR '':'')) = 2 \<and> TrimSpace (Split addr (CHR '':'') ! 0) = ip"
  then have "count_list addr (CHR '':'') = 1" by (simp add: length_Split)
  then obtain a b where ab: "addr = a @ CHR '':'' # b" "CHR '':'' \<notin> set a" "CHR '':'' \<notin> set b"
    using count_list_one [of addr "CHR '':''"] by blast
  with l have "TrimSpace a = ip" by (simp add: hd_Split takeWhile_before)
  with ab show "\<exists>host port. addr = host @ '':'' @ port \<and> CHR '':'' \<notin> set host
                        \<and> CHR '':'' \<notin> set port \<and> TrimSpace host = ip"
    by (intro exI [of _ a] exI [of _ b]) simp
next
  assume "\<exists>host port. addr = host @ '':'' @ port \<and> CHR '':'' \<notin> set host
                        \<and> CHR '':'' \<notin> set port \<and> TrimSpace host = ip"
  then obtain a b where ab: "addr = a @ CHR '':'' # b" "CHR '':'' \<notin> set a" "CHR '':'' \<notin> set b"
    and t: "TrimSpace a = ip" by auto
  from ab have "count_list addr (CHR '':'') = 1"
    using count_list_one [of addr "CHR '':''"] by blast
  with ab t show "length (Split addr (CHR '':'')) = 2 \<and> TrimSpace (Split addr (CHR '':'') ! 0) = ip"
    by (simp add: length_Split hd_Split takeWhile_before)
qed

lemma fetchReplicasFromMaster_ok:
  assumes "UnmarshalHosts X bufs = Inr (Some hosts)"
  shows "fetchReplicasFromMaster X (Inr bufs)
           = Inr (hosts \<noteq> []
                    \<and> (\<exists>host port. hd hosts = host @ '':'' @ port \<and> CHR '':'' \<notin> set host
                          \<and> CHR '':'' \<notin> set port \<and> TrimSpace host = LocalIP X),
                  hosts, None)"
proof (cases hosts)
  case Nil
  with assms show ?thesis by (simp add: fetchReplicasFromMaster_def)
next
  case (Cons h hs)
  with assms leader_test [of h "LocalIP X"] show ?thesis
    by (simp add: fetchReplicasFromMaster_def foldl_snoc Let_def)
qed

text \<open>
  Claim C8, amended: when \<open>updateReplicas\<close> is due and the request to the master and
  the decoding of its answer succeed, \<open>updateReplicas\<close> returns no error, the replicas
  are the hosts of the answer, and \<open>isLeader\<close> is true exactly when the hosts are not
  empty and the first one consists of a host, one colon and a port, of which the host
  without the white space around it is \<open>LocalIP\<close>; otherwise it is false.
\<close>

theorem updateReplicas_isLeader:
  assumes "\<not> sint (replica_now io - intervalToUpdateReplicas dp) \<le> sint (IntervalToUpdateReplica X)"
    and "replica_request io = Inr bufs"
    and "UnmarshalHosts X bufs = Inr (Some hosts)"
  shows "\<exists>dp1. updateReplicas X io dp = Inr (dp1, None)
           \<and> replicas dp1 = hosts
           \<and> (isLeader dp1 \<longleftrightarrow>
                hosts \<noteq> []
                \<and> (\<exists>host port. hd hosts = host @ '':'' @ port \<and> CHR '':'' \<notin> set host
                      \<and> CHR '':'' \<notin> set port \<and> TrimSpace host = LocalIP X))"
  using assms by (simp add: updateReplicas_def fetchReplicasFromMaster_ok)

lemma exampleX_replica:
  "IntervalToUpdateReplica exampleX = 600" "LocalIP exampleX = ''self''"
  "UnmarshalHosts exampleX bufs
     = (if bufs = ''null'' then Inr None else Inr (Some (Split bufs (CHR '',''))))"
  by (simp_all add: exampleX_def)

lemma example_due:
  "\<not> sint (replica_now (exampleReplicaIO a) - intervalToUpdateReplicas examplePartition)
      \<le> sint (IntervalToUpdateReplica exampleX)"
  by (simp add: exampleReplicaIO_def examplePartition_def exampleX_replica)

lemma example_request: "replica_request (exampleReplicaIO a) = Inr a"
  by (simp add: exampleReplicaIO_def)

lemma TrimSpace_self: "TrimSpace ''self'' = ''self''"
  by code_simp

lemma TrimSpace_padded: "TrimSpace '' self '' = ''self''"
  by code_simp

lemma TrimSpace_left: "TrimSpace '' self'' = ''self''"
  by code_simp

lemma TrimSpace_other: "TrimSpace ''other'' = ''other''"
  by code_simp

lemma updateReplicas_example:
  assumes "a \<noteq> ''null''"
  shows "updateReplicas exampleX (exampleReplicaIO a) examplePartition
           = Inr (examplePartition
                    \<lparr>isLeader := (case Split a (CHR '','') of
                                    [] \<Rightarrow> False
                                  | h # hs \<Rightarrow> length (Split h (CHR '':'')) = 2
                                       \<and> TrimSpace (Split h (CHR '':'') ! 0) = ''self''),
                      replicas := Split a (CHR '',''),
                      intervalToUpdateReplicas := 1541030401\<rparr>, None)"
  using assms example_due [of a]
  by (cases "Split a (CHR '','')")
     (simp_all add: updateReplicas_def fetchReplicasFromMaster_def example_request exampleX_replica
        foldl_snoc exampleReplicaIO_def Let_def)

text \<open>
  When the master answers \<open>null\<close> the decoding leaves no response, and the refresh
  panics.
\<close>

lemma updateReplicas_null_panics:
  "updateReplicas exampleX (exampleReplicaIO ''null'') examplePartition = Inl NilPointerDereference"
  using example_due [of "''null''"]
  by (simp add: updateReplicas_def fetchReplicasFromMaster_def example_request exampleX_replica)

text \<open>
  Claim C8 as it is stated fails, in both directions. The code does not compare the host
  portion of the first host with \<open>LocalIP\<close>: it splits the first host at its colons,
  wants two pieces, and compares the first piece without the white space around it. For
  the hosts \<open>["self"]\<close> the refresh succeeds, the host portion is \<open>LocalIP\<close>, and the
  node is not the leader; for the hosts \<open>[" self:9000"]\<close> the refresh succeeds, the
  host portion is not \<open>LocalIP\<close>, and the node is the leader.
\<close>

theorem isLeader_counterexample:
  "\<not> isl (updateReplicas exampleX (exampleReplicaIO ''self'') examplePartition)
   \<and> snd (projr (updateReplicas exampleX (exampleReplicaIO ''self'') examplePartition)) = None
   \<and> replicas (fst (projr (updateReplicas exampleX (exampleReplicaIO ''self'') examplePartition)))
       = [''self'']
   \<and> hostPortion ''self'' = LocalIP exampleX
   \<and> \<not> isLeader (fst (projr (updateReplicas exampleX (exampleReplicaIO ''self'') examplePartition)))
   \<and> \<not> isl (updateReplicas exampleX (exampleReplicaIO '' self:9000'') examplePartition)
   \<and> snd (projr (updateReplicas exampleX (exampleReplicaIO '' self:9000'') examplePartition)) = None
   \<and> replicas (fst (projr (updateReplicas exampleX (exampleReplicaIO '' self:9000'')
                               examplePartition))) = ['' self:9000'']
   \<and> hostPortion '' self:9000'' \<noteq> LocalIP exampleX
   \<and> isLeader (fst (projr (updateReplicas exampleX (exampleReplicaIO '' self:9000'')
                              examplePartition)))"
  by (simp add: updateReplicas_example hostPortion_def exampleX_replica TrimSpace_left)

text \<open>
  The node is the leader when its address comes first, with white space around the host;
  it is not when its address comes second, or when the first host has two colons.
\<close>

theorem updateReplicas_isLeader_witness:
  "updateReplicas exampleX (exampleReplicaIO '' self :9000,other:9000'') examplePartition
     = Inr (examplePartition\<lparr>isLeader := True, replicas := ['' self :9000'', ''other:9000''],
                             intervalToUpdateReplicas := 1541030401\<rparr>, None)
   \<and> updateReplicas exampleX (exampleReplicaIO ''other:9000,self:9000'') examplePartition
     = Inr (examplePartition\<lparr>isLeader := False, replicas := [''other:9000'', ''self:9000''],
                             intervalToUpdateReplicas := 1541030401\<rparr>, None)
   \<and> updateReplicas exampleX (exampleReplicaIO ''self:9000:1'') examplePartition
     = Inr (examplePartition\<lparr>isLeader := False, replicas := [''self:9000:1''],
                             intervalToUpdateReplicas := 1541030401\<rparr>, None)"
proof -
  have s1: "Split '' self :9000,other:9000'' (CHR '','') = ['' self :9000'', ''other:9000'']"
    and s2: "Split ''other:9000,self:9000'' (CHR '','') = [''other:9000'', ''self:9000'']"
    and s3: "Split ''self:9000:1'' (CHR '','') = [''self:9000:1'']"
    by simp_all
  have u: "UnmarshalHosts exampleX a = Inr (Some (Split a (CHR '','')))" if "a \<noteq> ''null''" for a
    using that by (simp add: exampleX_replica)
  have l1: "\<exists>host port. '' self :9000'' = host @ '':'' @ port \<and> CHR '':'' \<notin> set host
               \<and> CHR '':'' \<notin> set port \<and> TrimSpace host = ''self''"
    by (intro exI [of _ "'' self ''"] exI [of _ "''9000''"]) (simp add: TrimSpace_padded)
  have l2: "\<not> (\<exists>host port. ''other:9000'' = host @ '':'' @ port \<and> CHR '':'' \<notin> set host
               \<and> CHR '':'' \<notin> set port \<and> TrimSpace host = ''self'')"
    using leader_test [of "''other:9000''" "''self''"] by (simp add: TrimSpace_other)
  have l3: "\<not> (\<exists>host port. ''self:9000:1'' = host @ '':'' @ port \<and> CHR '':'' \<notin> set host
               \<and> CHR '':'' \<notin> set port \<and> TrimSpace host = ''self'')"
    using leader_test [of "''self:9000:1''" "''self''"] by simp
  have n: "'' self :9000,other:9000'' \<noteq> ''null''" "''other:9000,self:9000'' \<noteq> ''null''"
    "''self:9000:1'' \<noteq> ''null''" by simp_all
  from updateReplicas_isLeader [of "exampleReplicaIO '' self :9000,other:9000''" examplePartition
      exampleX "'' self :9000,other:9000''" "['' self :9000'', ''other:9000'']"]
  obtain d1 where d1: "updateReplicas exampleX (exampleReplicaIO '' self :9000,other:9000'')
        examplePartition = Inr (d1, None)" "isLeader d1"
    using l1 example_due example_request u [OF n(1)] by (auto simp: s1 exampleX_replica(2))
  from updateReplicas_isLeader [of "exampleReplicaIO ''other:9000,self:9000''" examplePartition
      exampleX "''other:9000,self:9000''" "[''other:9000'', ''self:9000'']"]
  obtain d2 where d2: "updateReplicas exampleX (exampleReplicaIO ''other:9000,self:9000'')
        examplePartition = Inr (d2, None)" "\<not> isLeader d2"
    using l2 example_due example_request u [OF n(2)] by (auto simp: s2 exampleX_replica(2))
  from updateReplicas_isLeader [of "exampleReplicaIO ''self:9000:1''" examplePartition
      exampleX "''self:9000:1''" "[''self:9000:1'']"]
  obtain d3 where d3: "updateReplicas exampleX (exampleReplicaIO ''self:9000:1'')
        examplePartition = Inr (d3, None)" "\<not> isLeader d3"
    using l3 example_due example_request u [OF n(3)] by (auto simp: s3 exampleX_replica(2))
  from d1 d2 d3 show ?thesis
    by (auto simp: updateReplicas_example s1 s2 s3)
qed

section \<open>The descriptor file after \<open>PersistMetadata\<close>\<close>

lemma PersistMetadata_success:
  assumes "snd (snd (PersistMetadata Sort Marshal io dp fs)) = None"
  shows "fst (PersistMetadata Sort Marshal io dp fs)
           = dp\<lparr>config := (config dp)\<lparr>cfg_Peers := sortPeers Sort (cfg_Peers (config dp))\<rparr>\<rparr>
       \<and> (\<exists>text. Marshal (metadataOf ((config dp)\<lparr>cfg_Peers := sortPeers Sort (cfg_Peers (config dp))\<rparr>)
                      (clock_text io)) = Inr text
            \<and> fst (snd (PersistMetadata Sort Marshal io dp fs))
                 (pathJoin (path dp) DataPartitionMetadataFileName)
               = Some (writeAt0 text
                   (case fs (pathJoin (path dp) TempMetadataFileName) of None \<Rightarrow> [] | Some old \<Rightarrow> old)))
       \<and> fst (snd (PersistMetadata Sort Marshal io dp fs)) (pathJoin (path dp) TempMetadataFileName) = None"
proof -
  let ?cfg = "(config dp)\<lparr>cfg_Peers := sortPeers Sort (cfg_Peers (config dp))\<rparr>"
  from assms have o: "open_error io = None"
    by (auto simp: PersistMetadata_def Let_def split: option.splits)
  from assms o obtain bytes where m: "Marshal (metadataOf ?cfg (clock_text io)) = Inr bytes"
    by (cases "Marshal (metadataOf ?cfg (clock_text io))")
       (auto simp: PersistMetadata_def Let_def)
  from assms o m have w: "write_error io = None"
    by (cases "write_error io") (auto simp: PersistMetadata_def Let_def)
  from assms o m w have r: "rename_error io = None"
    by (cases "rename_error io") (auto simp: PersistMetadata_def Let_def)
  have pm: "PersistMetadata Sort Marshal io dp fs =
     (dp\<lparr>config := ?cfg\<rparr>,
      removeDeferred io
        (renameFile (writeFile (openCreate fs (pathJoin (path dp) TempMetadataFileName))
                       (pathJoin (path dp) TempMetadataFileName) bytes)
           (pathJoin (path dp) TempMetadataFileName)
           (pathJoin (path dp) DataPartitionMetadataFileName))
        (pathJoin (path dp) TempMetadataFileName),
      None)"
    using o m w r by (simp add: PersistMetadata_def Let_def)
  show ?thesis
    unfolding pm using temp_not_meta [of "path dp"] m
    by (auto simp: removeDeferred_def renameFile_def writeFile_def openCreate_def
             split: option.splits)
qed

lemma writeAt0_Nil: "writeAt0 text [] = text"
  by (simp add: writeAt0_def)

lemma take_writeAt0: "take (length text) (writeAt0 text old) = text"
  by (simp add: writeAt0_def)

lemma writeAt0_same_length: "length a = length b \<Longrightarrow> writeAt0 a (b @ c) = a @ c"
  by (simp add: writeAt0_def)

lemma sortPeers_example: "sortPeers exampleSort examplePeers =
    [\<lparr>ID = 1, Addr = ''h1:9000''\<rparr>, \<lparr>ID = 2, Addr = ''h2:9000''\<rparr>, \<lparr>ID = 3, Addr = ''h3:9000''\<rparr>]"
  by (simp add: sortPeers_def exampleSort_def sortedPeers_Less_def examplePeers_def
      word_less_nat_alt)

lemma sortPeers_idem:
  "sortPeers exampleSort (sortPeers exampleSort examplePeers) = sortPeers exampleSort examplePeers"
  unfolding sortPeers_example
  by (simp add: sortPeers_def exampleSort_def sortedPeers_Less_def word_less_nat_alt)

lemma PersistMetadata_without_stale_temp:
  assumes "snd (snd (PersistMetadata Sort Marshal io dp fs)) = None"
    and "fs (pathJoin (path dp) TempMetadataFileName) = None"
    and "sorted (map ID (Sort sortedPeers_Less (cfg_Peers (config dp))))"
  shows "\<exists>text. Marshal (metadataOf (config (fst (PersistMetadata Sort Marshal io dp fs))) (clock_text io))
                   = Inr text
           \<and> fst (snd (PersistMetadata Sort Marshal io dp fs))
                (pathJoin (path dp) DataPartitionMetadataFileName) = Some text
           \<and> fst (snd (PersistMetadata Sort Marshal io dp fs))
                (pathJoin (path dp) TempMetadataFileName) = None
           \<and> sorted (map ID (Peers (metadataOf (config (fst (PersistMetadata Sort Marshal io dp fs)))
                                       (clock_text io))))"
  using PersistMetadata_success [OF assms(1)] assms(2, 3)
  by (auto simp: writeAt0_Nil metadataOf_def sortPeers_def)

text \<open>
  Claim C2, amended: the \<open>CreateTime\<close> of the descriptor that a call of
  \<open>PersistMetadata\<close> writes is the time of the clock at that call. When the call returns
  no error, the descriptor file starts with the serialisation of the descriptor that
  \<open>PersistMetadata\<close> has built, and the \<open>CreateTime\<close> of that descriptor is the text of
  \<open>time.Now()\<close> read during the call. For the call made by \<open>CreateDataPartition\<close> that
  is the time of creation.
\<close>

theorem PersistMetadata_CreateTime:
  assumes "snd (snd (PersistMetadata Sort Marshal io dp fs)) = None"
  shows "\<exists>text content.
           Marshal (metadataOf (config (fst (PersistMetadata Sort Marshal io dp fs))) (clock_text io))
             = Inr text
         \<and> CreateTime (metadataOf (config (fst (PersistMetadata Sort Marshal io dp fs))) (clock_text io))
             = clock_text io
         \<and> fst (snd (PersistMetadata Sort Marshal io dp fs))
              (pathJoin (path dp) DataPartitionMetadataFileName) = Some content
         \<and> take (length text) content = text"
  using PersistMetadata_success [OF assms]
  by (auto simp: take_writeAt0 metadataOf_def)

lemma exampleIO_ok: "snd (snd (PersistMetadata exampleSort exampleMarshal (exampleIO now) dp fs)) = None"
  by (simp add: PersistMetadata_def exampleIO_def exampleMarshal_def Let_def)

lemma exampleMarshal_sorted:
  "exampleMarshal (metadataOf (exampleCfg\<lparr>cfg_Peers := sortPeers exampleSort examplePeers\<rparr>) now)
     = Inr (exampleMetaText now)"
  by (simp add: exampleMarshal_def metadataOf_def exampleCfg_def sortPeers_example
      examplePeerText_def decimal.simps decimalInt_def exampleMetaText_def exampleMetaHead_def)

lemma example_paths:
  "pathJoin ''/data0/datapartition_7_1073741824'' DataPartitionMetadataFileName = exampleMetaPath"
  "pathJoin ''/data0/datapartition_7_1073741824'' TempMetadataFileName = exampleTempPath"
  by (simp_all add: pathJoin_name dirPrefix_partition DataPartitionMetadataFileName_def
      TempMetadataFileName_def exampleMetaPath_def exampleTempPath_def)

lemma example_persist:
  assumes p: "path dp = ''/data0/datapartition_7_1073741824''"
    and c: "sortPeers exampleSort (cfg_Peers (config dp)) = sortPeers exampleSort examplePeers"
           "(config dp)\<lparr>cfg_Peers := sortPeers exampleSort examplePeers\<rparr>
              = exampleCfg\<lparr>cfg_Peers := sortPeers exampleSort examplePeers\<rparr>"
  shows "fst (PersistMetadata exampleSort exampleMarshal (exampleIO now) dp fs)
           = dp\<lparr>config := exampleCfg\<lparr>cfg_Peers := sortPeers exampleSort examplePeers\<rparr>\<rparr>
       \<and> fst (snd (PersistMetadata exampleSort exampleMarshal (exampleIO now) dp fs)) exampleMetaPath
           = Some (writeAt0 (exampleMetaText now)
                     (case fs exampleTempPath of None \<Rightarrow> [] | Some old \<Rightarrow> old))
       \<and> fst (snd (PersistMetadata exampleSort exampleMarshal (exampleIO now) dp fs)) exampleTempPath = None"
  using PersistMetadata_success [of exampleSort exampleMarshal "exampleIO now" dp fs]
    exampleIO_ok [of now dp fs] p c
  by (auto simp: example_paths exampleMarshal_sorted exampleIO_def)

text \<open>
  A call on 2018-11-02 at 10:00:00 for the example partition, on a node without files.
\<close>

theorem PersistMetadata_CreateTime_witness:
  "(\<exists>text content.
      exampleMarshal (metadataOf
          (config (fst (PersistMetadata exampleSort exampleMarshal (exampleIO ''2018-11-02 10:00:00'')
                          examplePartition Map.empty)))
          (clock_text (exampleIO ''2018-11-02 10:00:00''))) = Inr text
    \<and> CreateTime (metadataOf
          (config (fst (PersistMetadata exampleSort exampleMarshal (exampleIO ''2018-11-02 10:00:00'')
                          examplePartition Map.empty)))
          (clock_text (exampleIO ''2018-11-02 10:00:00''))) = ''2018-11-02 10:00:00''
    \<and> fst (snd (PersistMetadata exampleSort exampleMarshal (exampleIO ''2018-11-02 10:00:00'')
                   examplePartition Map.empty))
         (pathJoin (path examplePartition) DataPartitionMetadataFileName) = Some content
    \<and> take (length text) content = text)
   \<and> fst (snd (PersistMetadata exampleSort exampleMarshal (exampleIO ''2018-11-02 10:00:00'')
                  examplePartition Map.empty)) exampleMetaPath
       = Some (exampleMetaText ''2018-11-02 10:00:00'')"
proof -
  have p: "path examplePartition = ''/data0/datapartition_7_1073741824''"
    and c: "config examplePartition = exampleCfg"
    by (simp_all add: examplePartition_def)
  have cp: "cfg_Peers exampleCfg = examplePeers" by (simp add: exampleCfg_def)
  have e: "fst (snd (PersistMetadata exampleSort exampleMarshal (exampleIO ''2018-11-02 10:00:00'')
                  examplePartition Map.empty)) exampleMetaPath
       = Some (exampleMetaText ''2018-11-02 10:00:00'')"
    using example_persist [of examplePartition "''2018-11-02 10:00:00''" Map.empty]
    by (simp add: p c cp writeAt0_Nil)
  have k: "clock_text (exampleIO ''2018-11-02 10:00:00'') = ''2018-11-02 10:00:00''"
    by (simp add: exampleIO_def)
  from PersistMetadata_CreateTime [of exampleSort exampleMarshal
      "exampleIO ''2018-11-02 10:00:00''" examplePartition Map.empty]
    exampleIO_ok [of "''2018-11-02 10:00:00''" examplePartition Map.empty] e
  show ?thesis unfolding k by simp
qed

lemma exampleCreated_eq:
  "exampleCreated =
     (Some (fst (PersistMetadata exampleSort exampleMarshal (exampleIO ''2018-11-01 10:00:00'')
                   examplePartition Map.empty)),
      fst (snd (PersistMetadata exampleSort exampleMarshal (exampleIO ''2018-11-01 10:00:00'')
                   examplePartition Map.empty)),
      None)"
proof -
  obtain dp1 fs1 err where pm: "PersistMetadata exampleSort exampleMarshal (exampleIO ''2018-11-01 10:00:00'')
      (examplePartition :: (uint64 list, bool) DataPartition) Map.empty = (dp1, fs1, err)"
    by (metis prod_cases3)
  with exampleIO_ok [of "''2018-11-01 10:00:00''" examplePartition Map.empty]
  have "err = None" by simp
  with pm show ?thesis
    by (simp add: exampleCreated_def CreateDataPartition_def newDataPartition_example)
qed

text \<open>
  Claim C2 as it is stated fails: \<open>PersistMetadata\<close> does not keep a time of creation,
  it writes the time of the call. The example partition is created on 2018-11-01 and its
  descriptor file holds that day as \<open>CreateTime\<close>; a call of \<open>PersistMetadata\<close> a day
  later writes a descriptor file that holds the later day.
\<close>

theorem CreateTime_counterexample:
  "snd (snd exampleCreated) = None
   \<and> fst (snd exampleCreated) exampleMetaPath = Some (exampleMetaText ''2018-11-01 10:00:00'')
   \<and> snd (snd (PersistMetadata exampleSort exampleMarshal (exampleIO ''2018-11-02 10:00:00'')
                  (the (fst exampleCreated)) (fst (snd exampleCreated)))) = None
   \<and> fst (snd (PersistMetadata exampleSort exampleMarshal (exampleIO ''2018-11-02 10:00:00'')
                  (the (fst exampleCreated)) (fst (snd exampleCreated)))) exampleMetaPath
       = Some (exampleMetaText ''2018-11-02 10:00:00'')
   \<and> exampleMetaText ''2018-11-02 10:00:00'' \<noteq> exampleMetaText ''2018-11-01 10:00:00''"
proof -
  let ?pm0 = "PersistMetadata exampleSort exampleMarshal (exampleIO ''2018-11-01 10:00:00'')
                (examplePartition :: (uint64 list, bool) DataPartition) Map.empty"
  have p: "path examplePartition = ''/data0/datapartition_7_1073741824''"
    and c: "config examplePartition = exampleCfg"
    by (simp_all add: examplePartition_def)
  have cp: "cfg_Peers exampleCfg = examplePeers" by (simp add: exampleCfg_def)
  from example_persist [of examplePartition "''2018-11-01 10:00:00''" Map.empty]
  have 0: "fst ?pm0 = examplePartition\<lparr>config := exampleCfg\<lparr>cfg_Peers := sortPeers exampleSort examplePeers\<rparr>\<rparr>"
       "fst (snd ?pm0) exampleMetaPath = Some (exampleMetaText ''2018-11-01 10:00:00'')"
       "fst (snd ?pm0) exampleTempPath = None"
    by (simp_all add: p c cp writeAt0_Nil)
  let ?dp1 = "examplePartition\<lparr>config := exampleCfg\<lparr>cfg_Peers := sortPeers exampleSort examplePeers\<rparr>\<rparr>
               :: (uint64 list, bool) DataPartition"
  have p1: "path ?dp1 = ''/data0/datapartition_7_1073741824''" by (simp add: p)
  have c1: "sortPeers exampleSort (cfg_Peers (config ?dp1)) = sortPeers exampleSort examplePeers"
    by (simp add: sortPeers_idem)
  have c2: "(config ?dp1)\<lparr>cfg_Peers := sortPeers exampleSort examplePeers\<rparr>
              = exampleCfg\<lparr>cfg_Peers := sortPeers exampleSort examplePeers\<rparr>" by simp
  from example_persist [OF p1 c1 c2, of "''2018-11-02 10:00:00''" "fst (snd ?pm0)"]
  have 1: "fst (snd (PersistMetadata exampleSort exampleMarshal (exampleIO ''2018-11-02 10:00:00'')
                  ?dp1 (fst (snd ?pm0)))) exampleMetaPath
       = Some (exampleMetaText ''2018-11-02 10:00:00'')"
    by (simp add: 0(3) writeAt0_Nil)
  have 2: "exampleMetaText ''2018-11-02 10:00:00'' \<noteq> exampleMetaText ''2018-11-01 10:00:00''"
    by (simp add: exampleMetaText_def exampleMetaHead_def)
  show ?thesis
    by (simp add: exampleCreated_eq 0 1 2 exampleIO_ok)
qed

text \<open>
  Claim C6 does not hold of the code when a temporary file has been left behind. The
  temporary file is opened without truncation and written from its start, so the tail of
  a longer old content stays; \<open>PersistMetadata\<close> returns no error, and the descriptor
  file holds the serialisation of the descriptor followed by the end of the old content,
  which is not the serialisation of the descriptor.
\<close>

theorem PersistMetadata_stale_temp:
  "snd (snd (PersistMetadata exampleSort exampleMarshal (exampleIO ''2018-11-02 10:00:00'')
               examplePartition exampleStaleFiles)) = None
   \<and> exampleMarshal (metadataOf
        (config (fst (PersistMetadata exampleSort exampleMarshal (exampleIO ''2018-11-02 10:00:00'')
                        examplePartition exampleStaleFiles)))
        ''2018-11-02 10:00:00'') = Inr (exampleMetaText ''2018-11-02 10:00:00'')
   \<and> fst (snd (PersistMetadata exampleSort exampleMarshal (exampleIO ''2018-11-02 10:00:00'')
                  examplePartition exampleStaleFiles)) exampleMetaPath
       = Some (exampleMetaText ''2018-11-02 10:00:00'' @ ''d:4,addr:h4:9000}]}'')
   \<and> fst (snd (PersistMetadata exampleSort exampleMarshal (exampleIO ''2018-11-02 10:00:00'')
                  examplePartition exampleStaleFiles)) exampleTempPath = None"
proof -
  have p: "path examplePartition = ''/data0/datapartition_7_1073741824''"
    and c: "config examplePartition = exampleCfg"
    by (simp_all add: examplePartition_def)
  have cp: "cfg_Peers exampleCfg = examplePeers" by (simp add: exampleCfg_def)
  have s: "exampleStaleFiles exampleTempPath
             = Some ((exampleMetaHead ''2018-10-31 09:00:00'' @ ''{i'') @ ''d:4,addr:h4:9000}]}'')"
    by (simp add: exampleStaleFiles_def)
  have l: "length (exampleMetaText ''2018-11-02 10:00:00'')
             = length (exampleMetaHead ''2018-10-31 09:00:00'' @ ''{i'')"
    by (simp add: exampleMetaText_def exampleMetaHead_def)
  from example_persist [of examplePartition "''2018-11-02 10:00:00''" exampleStaleFiles]
  show ?thesis
    by (simp add: p c cp s writeAt0_same_length [OF l] exampleIO_ok exampleMarshal_sorted
        del: append_assoc)
qed

section \<open>The workers in flight during a repair\<close>

lemma repairInv_start: "repairInv n (repairStart toRepair)"
  by (simp add: repairInv_def repairStart_def)

lemma mod_Suc_step:
  assumes "0 < n" "Suc r mod n \<noteq> 0"
  shows "Suc (r mod n) = Suc r mod n"
  using assms by (metis mod_Suc)

lemma repairInv_step:
  assumes "0 < n" and "repairStep n s t" and "repairInv n s"
  shows "repairInv n t"
  using assms(2)
proof cases
  case (skip extentInfo rest)
  with assms(3) show ?thesis by (simp add: repairInv_def)
next
  case (dispatch extentInfo rest)
  from assms(1) have lt: "recoverIndex s mod n < n" by simp
  show ?thesis
  proof (cases "Suc (recoverIndex s) mod n = 0")
    case True
    with dispatch assms(3) lt show ?thesis by (simp add: repairInv_def)
  next
    case False
    with mod_Suc_step [OF assms(1) False] dispatch assms(3) show ?thesis
      by (simp add: repairInv_def)
  qed
next
  case (dispatch_panic extentInfo rest)
  with assms(1) show ?thesis by simp
next
  case barrier_pass
  with assms(3) show ?thesis by (simp add: repairInv_def)
next
  case loop_end
  with assms(3) show ?thesis by (simp add: repairInv_def)
next
  case final_pass
  with assms(3) show ?thesis by (simp add: repairInv_def)
next
  case worker_done
  with assms(3) show ?thesis by (auto simp: repairInv_def split: place.splits)
qed

lemma repairInv_reaches:
  assumes "0 < n" and "repairReaches n toRepair s"
  shows "repairInv n s"
  using assms(2) unfolding repairReaches_def
  by (induction rule: rtranclp_induct) (auto intro: repairInv_start repairInv_step [OF assms(1)])

lemma repairInv_bound:
  assumes "0 < n" and "repairInv n s"
  shows "inFlight s \<le> n \<and> (place s = Returned \<longrightarrow> inFlight s = 0) \<and> place s \<noteq> Panicked"
proof -
  have "r mod n \<le> n" for r using assms(1) by (simp add: less_imp_le)
  with assms(2) show ?thesis
    by (cases "place s") (auto simp: repairInv_def intro: order_trans)
qed

text \<open>
  Claim C9: in every state that an execution of the second loop of
  \<open>DoExtentStoreRepair\<close> reaches, for a positive \<open>NumOfFilesToRecoverInParallel\<close>, the
  number of workers in flight is at most \<open>NumOfFilesToRecoverInParallel\<close>; when the
  function has returned no worker is in flight; and the loop does not panic.
\<close>

theorem repair_bounded_fanout:
  assumes "0 < n" and "repairReaches n toRepair s"
  shows "inFlight s \<le> n \<and> (place s = Returned \<longrightarrow> inFlight s = 0) \<and> place s \<noteq> Panicked"
  using assms by (intro repairInv_bound repairInv_reaches)

lemma repairStep_one: "repairStep n a b \<Longrightarrow> (repairStep n)\<^sup>*\<^sup>* a b"
  by (rule r_into_rtranclp)

lemma repairStep_more:
  "(repairStep n)\<^sup>*\<^sup>* a b \<Longrightarrow> repairStep n b c \<Longrightarrow> (repairStep n)\<^sup>*\<^sup>* a c"
  by (rule rtranclp.rtrancl_into_rtrancl)

text \<open>
  With two workers allowed, two starts in a row lead to the barrier with two workers in
  flight, which is the bound; and the repair of one extent returns with none in flight.
\<close>

theorem repair_bounded_fanout_witness:
  "(0::nat) < 2
   \<and> repairReaches 2 [examplePresent, exampleMissing, exampleFailing]
        \<lparr>pending = [exampleFailing], recoverIndex = 2, wgCounter = 2, inFlight = 2, place = Barrier\<rparr>
   \<and> inFlight \<lparr>pending = [exampleFailing], recoverIndex = 2, wgCounter = 2, inFlight = 2,
                 place = Barrier\<rparr> \<le> 2
   \<and> repairReaches 2 [examplePresent]
        \<lparr>pending = [], recoverIndex = 1, wgCounter = 0, inFlight = 0, place = Returned\<rparr>"
proof -
  let ?a0 = "repairStart [examplePresent, exampleMissing, exampleFailing]"
  let ?a1 = "\<lparr>pending = [exampleMissing, exampleFailing], recoverIndex = 1, wgCounter = 1,
              inFlight = 1, place = Dispatching\<rparr>"
  let ?a2 = "\<lparr>pending = [exampleFailing], recoverIndex = 2, wgCounter = 2, inFlight = 2,
              place = Barrier\<rparr>"
  have a1: "repairStep 2 ?a0 ?a1"
    using repairStep.dispatch [of ?a0 examplePresent "[exampleMissing, exampleFailing]" 2]
    by (simp add: repairStart_def)
  have a2: "repairStep 2 ?a1 ?a2"
    using repairStep.dispatch [of ?a1 exampleMissing "[exampleFailing]" 2]
    by (simp add: numeral_2_eq_2)
  have ra: "repairReaches 2 [examplePresent, exampleMissing, exampleFailing] ?a2"
    unfolding repairReaches_def
    by (rule repairStep_more [OF repairStep_one [OF a1] a2])
  let ?b0 = "repairStart [examplePresent]"
  let ?b1 = "\<lparr>pending = [], recoverIndex = 1, wgCounter = 1, inFlight = 1, place = Dispatching\<rparr>"
  let ?b2 = "\<lparr>pending = [], recoverIndex = 1, wgCounter = 1, inFlight = 1, place = FinalBarrier\<rparr>"
  let ?b3 = "\<lparr>pending = [], recoverIndex = 1, wgCounter = 0, inFlight = 0, place = FinalBarrier\<rparr>"
  let ?b4 = "\<lparr>pending = [], recoverIndex = 1, wgCounter = 0, inFlight = 0, place = Returned\<rparr>"
  have b1: "repairStep 2 ?b0 ?b1"
    using repairStep.dispatch [of ?b0 examplePresent "[]" 2] by (simp add: repairStart_def)
  have b2: "repairStep 2 ?b1 ?b2"
    using repairStep.loop_end [of ?b1 2] by simp
  have b3: "repairStep 2 ?b2 ?b3"
    using repairStep.worker_done [of ?b2 2] by simp
  have b4: "repairStep 2 ?b3 ?b4"
    using repairStep.final_pass [of ?b3 2] by simp
  have "(repairStep 2)\<^sup>*\<^sup>* ?b0 ?b2"
    by (rule repairStep_more [OF repairStep_one [OF b1] b2])
  then have "(repairStep 2)\<^sup>*\<^sup>* ?b0 ?b3"
    using b3 by (rule repairStep_more)
  then have "(repairStep 2)\<^sup>*\<^sup>* ?b0 ?b4"
    using b4 by (rule repairStep_more)
  then have rb: "repairReaches 2 [examplePresent] ?b4" by (simp add: repairReaches_def)
  have pos: "(0::nat) < 2" by simp
  from repair_bounded_fanout [OF pos ra] repair_bounded_fanout [OF pos rb] ra rb
  show ?thesis by simp
qed

end
